theory Spec2Isabelle
  imports Main "HOL-Library.Word" "HOL-Library.AList"
begin

section \<open>Ray-tracing bindings: handles, registry tables and marshaling\<close>

text \<open>
  The development embeds the script bindings of the ray-tracing layer: the \<^verbatim>\<open>js_*\<close>
  functions, their helpers and the stub backend of \<^verbatim>\<open>raytracing/rt_common.cpp\<close>, and the
  types of \<^verbatim>\<open>raytracing/rt_common.h\<close>.  The global variables of the bindings become one record that
  every function takes and returns.  The scripting engine (\<^verbatim>\<open>js::Engine\<close>) and the
  platform backend (\<^verbatim>\<open>IRTBackend\<close>) are interfaces whose implementations are not part of
  the sources; both are parameters of every definition.  Diagnostics written to
  \<^verbatim>\<open>std::cerr\<close> are not modelled.
\<close>

subsection \<open>Basic types\<close>

type_synonym u32 = "32 word"

text \<open>\<^verbatim>\<open>size_t\<close>: the code only divides, compares and counts up to a bound with it.\<close>

type_synonym size_t = nat

text \<open>\<^verbatim>\<open>void*\<close> native handles: an address, \<open>0\<close> being \<^verbatim>\<open>nullptr\<close>.\<close>

type_synonym ptr = nat

abbreviation (input) nullptr :: ptr where
  "nullptr \<equiv> 0"

text \<open>
  A \<^verbatim>\<open>float\<close> is kept as its 32-bit pattern (IEEE 754 single precision): the bindings
  only copy floats and store the constant \<^verbatim>\<open>1.0f\<close>.  A value-initialised float is all
  zero bits, which is \<^verbatim>\<open>0.0f\<close>.
\<close>

type_synonym float32 = "32 word"

definition f32_one :: float32 where
  "f32_one = 0x3F800000"

definition f32_zero :: float32 where
  "f32_zero = 0"

text \<open>
  The data of a typed buffer, seen through a \<^verbatim>\<open>const float*\<close> or a
  \<^verbatim>\<open>const uint32_t*\<close>: its consecutive 4-byte elements.  A null pointer is \<open>None\<close>.
\<close>

type_synonym buffer_data = "32 word list"

subsection \<open>Descriptors and handles (\<^verbatim>\<open>rt_common.h\<close>)\<close>

record RTGeometryDesc =
  vertices :: "buffer_data option"
  vertexCount :: size_t
  vertexStride :: size_t
  vertexOffset :: size_t
  indices :: "buffer_data option"
  indexCount :: size_t

record RTGeometryHandle =
  geom_handle :: ptr
  geom_id :: u32

record RTBLASHandle =
  blas_handle :: ptr
  blas_id :: u32

record RTTLASInstance =
  blas :: RTBLASHandle
  transform :: "float32 list"
  instanceId :: u32
  mask_field :: u32
  flags :: u32

record RTTLASHandle =
  tlas_handle :: ptr
  tlas_id :: u32

subsection \<open>The backend interface\<close>

text \<open>
  \<^verbatim>\<open>class IRTBackend\<close>: a backend object has a private state \<open>'b\<close>; each virtual method
  takes the state and returns its result with the new state.  An array passed as pointer
  and count is a list.
\<close>

record 'b IRTBackend =
  isSupported :: "'b \<Rightarrow> bool \<times> 'b"
  createGeometry :: "RTGeometryDesc \<Rightarrow> 'b \<Rightarrow> RTGeometryHandle \<times> 'b"
  destroyGeometry :: "RTGeometryHandle \<Rightarrow> 'b \<Rightarrow> 'b"
  createBLAS :: "RTGeometryHandle list \<Rightarrow> 'b \<Rightarrow> RTBLASHandle \<times> 'b"
  destroyBLAS :: "RTBLASHandle \<Rightarrow> 'b \<Rightarrow> 'b"
  createTLAS :: "RTTLASInstance list \<Rightarrow> 'b \<Rightarrow> RTTLASHandle \<times> 'b"
  updateTLAS :: "RTTLASHandle \<Rightarrow> RTTLASInstance list \<Rightarrow> 'b \<Rightarrow> 'b"
  destroyTLAS :: "RTTLASHandle \<Rightarrow> 'b \<Rightarrow> 'b"

text \<open>\<^verbatim>\<open>class StubRTBackend\<close>: no state, nothing supported, every creation returns the
  default handle \<^verbatim>\<open>{nullptr, 0}\<close>.\<close>

definition StubRTBackend :: "unit IRTBackend" where
  "StubRTBackend =
     \<lparr> isSupported = (\<lambda>b. (False, b)),
       createGeometry = (\<lambda>desc b. (\<lparr>geom_handle = nullptr, geom_id = 0\<rparr>, b)),
       destroyGeometry = (\<lambda>geometry b. b),
       createBLAS = (\<lambda>geometries b. (\<lparr>blas_handle = nullptr, blas_id = 0\<rparr>, b)),
       destroyBLAS = (\<lambda>blas b. b),
       createTLAS = (\<lambda>instances b. (\<lparr>tlas_handle = nullptr, tlas_id = 0\<rparr>, b)),
       updateTLAS = (\<lambda>tlas instances b. b),
       destroyTLAS = (\<lambda>tlas b. b) \<rparr>"

subsection \<open>The scripting engine\<close>

text \<open>
  \<^verbatim>\<open>js::Engine\<close> is declared in a header that is not among the sources, so the engine is a
  parameter: \<open>'v\<close> is the type of script values (\<^verbatim>\<open>js::JSValueHandle\<close>) and \<open>'d\<close> the
  type of the numbers \<^verbatim>\<open>toNumber\<close> returns (\<^verbatim>\<open>double\<close>).  The three conversions between
  \<^verbatim>\<open>double\<close> and the integer types that the bindings write as \<^verbatim>\<open>static_cast\<close> are
  fields of the same record, since they depend on \<open>'d\<close>.  \<^verbatim>\<open>getArrayBufferData\<close> returns the
  data pointer together with the byte size it stores through its out-parameter.  Every
  operation of the engine is taken as a function of its arguments.
\<close>

record ('v, 'd) Engine =
  getProperty :: "'v \<Rightarrow> string \<Rightarrow> 'v"
  getPropertyIndex :: "'v \<Rightarrow> u32 \<Rightarrow> 'v"
  isUndefined :: "'v \<Rightarrow> bool"
  isObject :: "'v \<Rightarrow> bool"
  isArray :: "'v \<Rightarrow> bool"
  toNumber :: "'v \<Rightarrow> 'd"
  getArrayBufferData :: "'v \<Rightarrow> buffer_data option \<times> size_t"
  newNull :: "'v"
  newUndefined :: "'v"
  newObject :: "'v"
  newString :: "string \<Rightarrow> 'v"
  newNumber :: "'d \<Rightarrow> 'v"
  setProperty :: "'v \<Rightarrow> string \<Rightarrow> 'v \<Rightarrow> 'v"
  double_to_uint32 :: "'d \<Rightarrow> u32"
  double_to_size :: "'d \<Rightarrow> size_t"
  uint32_to_double :: "u32 \<Rightarrow> 'd"

subsection \<open>Global state of the bindings\<close>

text \<open>
  The \<^verbatim>\<open>static\<close> variables of the bindings.  Each \<^verbatim>\<open>std::unordered_map\<close> is an
  association list read with \<open>map_of\<close>, written with \<open>AList.update\<close> (\<^verbatim>\<open>m[id] = h\<close>) and
  \<open>AList.delete\<close> (\<^verbatim>\<open>m.erase(it)\<close>); the order of the list is the order in which
  \<^verbatim>\<open>cleanupRTBindings\<close> walks the table.
\<close>

record 'b rt_globals =
  g_rtBackend :: "'b option"
  g_nextGeometryId :: u32
  g_nextBLASId :: u32
  g_nextTLASId :: u32
  g_geometries :: "(u32 \<times> RTGeometryHandle) list"
  g_blases :: "(u32 \<times> RTBLASHandle) list"
  g_tlases :: "(u32 \<times> RTTLASHandle) list"

text \<open>The values the static initialisers give.\<close>

definition static_init :: "'b rt_globals" where
  "static_init =
     \<lparr> g_rtBackend = None,
       g_nextGeometryId = 1, g_nextBLASId = 1, g_nextTLASId = 1,
       g_geometries = [], g_blases = [], g_tlases = [] \<rparr>"

declare static_init_def [code_unfold]

subsection \<open>Helper functions\<close>

text \<open>
  \<^verbatim>\<open>extractFloat32Array\<close> and \<^verbatim>\<open>extractUint32Array\<close>: \<open>None\<close> is the returned
  \<^verbatim>\<open>nullptr\<close> (the count is then left as the caller initialised it, \<open>0\<close>); otherwise the
  data pointer and the element count \<^verbatim>\<open>byteSize / sizeof(float)\<close>.
\<close>

definition extractFloat32Array :: "('v, 'd) Engine \<Rightarrow> 'v \<Rightarrow> (buffer_data \<times> size_t) option" where
  "extractFloat32Array engine val =
     (case getArrayBufferData engine val of
        (None, byteSize) \<Rightarrow> None
      | (Some data, byteSize) \<Rightarrow>
          if byteSize = 0 then None else Some (data, byteSize div 4))"

definition extractUint32Array :: "('v, 'd) Engine \<Rightarrow> 'v \<Rightarrow> (buffer_data \<times> size_t) option" where
  "extractUint32Array engine val =
     (case getArrayBufferData engine val of
        (None, byteSize) \<Rightarrow> None
      | (Some data, byteSize) \<Rightarrow>
          if byteSize = 0 then None else Some (data, byteSize div 4))"

definition createGeometryJS :: "('v, 'd) Engine \<Rightarrow> u32 \<Rightarrow> 'v" where
  "createGeometryJS engine ident =
     (let obj = newObject engine;
          obj = setProperty engine obj ''_type'' (newString engine ''geometry'')
      in setProperty engine obj ''_id'' (newNumber engine (uint32_to_double engine ident)))"

definition createBLASJS :: "('v, 'd) Engine \<Rightarrow> u32 \<Rightarrow> 'v" where
  "createBLASJS engine ident =
     (let obj = newObject engine;
          obj = setProperty engine obj ''_type'' (newString engine ''blas'')
      in setProperty engine obj ''_id'' (newNumber engine (uint32_to_double engine ident)))"

definition createTLASJS :: "('v, 'd) Engine \<Rightarrow> u32 \<Rightarrow> 'v" where
  "createTLASJS engine ident =
     (let obj = newObject engine;
          obj = setProperty engine obj ''_type'' (newString engine ''tlas'')
      in setProperty engine obj ''_id'' (newNumber engine (uint32_to_double engine ident)))"

definition getGeometryId :: "('v, 'd) Engine \<Rightarrow> 'v \<Rightarrow> u32" where
  "getGeometryId engine obj =
     (let idVal = getProperty engine obj ''_id''
      in if isUndefined engine idVal then 0
         else double_to_uint32 engine (toNumber engine idVal))"

definition getBLASId :: "('v, 'd) Engine \<Rightarrow> 'v \<Rightarrow> u32" where
  "getBLASId engine obj =
     (let idVal = getProperty engine obj ''_id''
      in if isUndefined engine idVal then 0
         else double_to_uint32 engine (toNumber engine idVal))"

definition getTLASId :: "('v, 'd) Engine \<Rightarrow> 'v \<Rightarrow> u32" where
  "getTLASId engine obj =
     (let idVal = getProperty engine obj ''_id''
      in if isUndefined engine idVal then 0
         else double_to_uint32 engine (toNumber engine idVal))"

subsection \<open>Marshaling\<close>

text \<open>
  \<^verbatim>\<open>js_createGeometry\<close>, from the check of the argument to the filled descriptor
  (lines 265 to 302 of \<^verbatim>\<open>rt_common.cpp\<close>): \<open>None\<close> is the early return of
  \<^verbatim>\<open>newNull()\<close>.  A present \<^verbatim>\<open>indices\<close> value whose
  extraction returns \<^verbatim>\<open>nullptr\<close> leaves \<^verbatim>\<open>indices = nullptr\<close> and \<^verbatim>\<open>indexCount = 0\<close>;
  the code does not test it.
\<close>

definition marshalGeometryDesc :: "('v, 'd) Engine \<Rightarrow> 'v list \<Rightarrow> RTGeometryDesc option" where
  "marshalGeometryDesc engine args =
     (case args of
        [] \<Rightarrow> None
      | options # _ \<Rightarrow>
          if \<not> isObject engine options then None
          else
            let verticesVal = getProperty engine options ''vertices'' in
            (case extractFloat32Array engine verticesVal of
               None \<Rightarrow> None
             | Some (verts, floatCount) \<Rightarrow>
                 if floatCount = 0 then None
                 else
                   let indicesVal = getProperty engine options ''indices'';
                       extracted =
                         (if \<not> isUndefined engine indicesVal
                          then extractUint32Array engine indicesVal else None);
                       strideVal = getProperty engine options ''vertexStride'';
                       stride =
                         (if isUndefined engine strideVal then 12
                          else double_to_size engine (toNumber engine strideVal));
                       offsetVal = getProperty engine options ''vertexOffset'';
                       offset =
                         (if isUndefined engine offsetVal then 0
                          else double_to_size engine (toNumber engine offsetVal))
                   in Some \<lparr> vertices = Some verts,
                             vertexCount = floatCount div 3,
                             vertexStride = stride,
                             vertexOffset = offset,
                             indices = map_option fst extracted,
                             indexCount = (case extracted of None \<Rightarrow> 0 | Some (_, n) \<Rightarrow> n) \<rparr>))"

text \<open>
  The loop of \<^verbatim>\<open>js_createBLAS\<close> over the indices \<^verbatim>\<open>0 .. count - 1\<close> (lines 344 to
  354); \<open>None\<close> is the early return at the first element whose id is not in
  \<^verbatim>\<open>g_geometries\<close>.  \<^verbatim>\<open>marshalBLASGeometries\<close> is the part of the function from the check
  of the argument to the end of the loop (lines 324 to 354).
\<close>

fun collectGeometryHandles ::
  "('v, 'd) Engine \<Rightarrow> 'b rt_globals \<Rightarrow> 'v \<Rightarrow> nat list \<Rightarrow> RTGeometryHandle list
     \<Rightarrow> RTGeometryHandle list option" where
  "collectGeometryHandles engine s geometriesArr [] handles = Some handles"
| "collectGeometryHandles engine s geometriesArr (i # rest) handles =
     (let geomObj = getPropertyIndex engine geometriesArr (of_nat i);
          geomId = getGeometryId engine geomObj
      in case map_of (g_geometries s) geomId of
           None \<Rightarrow> None
         | Some h \<Rightarrow> collectGeometryHandles engine s geometriesArr rest (handles @ [h]))"

definition marshalBLASGeometries ::
  "('v, 'd) Engine \<Rightarrow> 'b rt_globals \<Rightarrow> 'v list \<Rightarrow> RTGeometryHandle list option" where
  "marshalBLASGeometries engine s args =
     (case args of
        [] \<Rightarrow> None
      | geometriesArr # _ \<Rightarrow>
          if \<not> isArray engine geometriesArr then None
          else
            let lengthVal = getProperty engine geometriesArr ''length'';
                count = double_to_size engine (toNumber engine lengthVal)
            in if count = 0 then None
               else collectGeometryHandles engine s geometriesArr [0..<count] [])"

text \<open>
  The matrix the \<^verbatim>\<open>else\<close> branch leaves in \<^verbatim>\<open>inst.transform\<close>: the instance is
  value-initialised (sixteen zero floats) and four elements are then set to \<^verbatim>\<open>1.0f\<close>.
\<close>

definition default_transform :: "float32 list" where
  "default_transform =
     (replicate 16 f32_zero)[0 := f32_one, 5 := f32_one, 10 := f32_one, 15 := f32_one]"

text \<open>
  One iteration of the instance loop, which \<^verbatim>\<open>js_createTLAS\<close> (lines 396 to 431) and
  \<^verbatim>\<open>js_updateTLAS\<close> (lines 479 to 510) both contain with the same statements: \<open>None\<close>
  is the early return on an id that is not in \<^verbatim>\<open>g_blases\<close>.  The \<^verbatim>\<open>memcpy\<close> of sixteen
  floats takes the first sixteen elements of the buffer, which holds at least as many
  bytes as the engine reports.  \<^verbatim>\<open>collectInstances\<close> is the loop and
  \<^verbatim>\<open>marshalTLASInstances\<close> the part of \<^verbatim>\<open>js_createTLAS\<close> from the check of the argument
  to the end of the loop (lines 376 to 431).
\<close>

definition marshalInstance ::
  "('v, 'd) Engine \<Rightarrow> 'b rt_globals \<Rightarrow> 'v \<Rightarrow> RTTLASInstance option" where
  "marshalInstance engine s instObj =
     (let blasObj = getProperty engine instObj ''blas'';
          blasId = getBLASId engine blasObj
      in case map_of (g_blases s) blasId of
           None \<Rightarrow> None
         | Some found \<Rightarrow>
             let transformVal = getProperty engine instObj ''transform'';
                 matrix =
                   (case extractFloat32Array engine transformVal of
                      None \<Rightarrow> default_transform
                    | Some (transformData, transformCount) \<Rightarrow>
                        if transformCount \<ge> 16 then take 16 transformData
                        else default_transform);
                 instanceIdVal = getProperty engine instObj ''instanceId''
             in Some \<lparr> blas = found,
                       transform = matrix,
                       instanceId =
                         (if isUndefined engine instanceIdVal then 0
                          else double_to_uint32 engine (toNumber engine instanceIdVal)),
                       mask_field = 0xFF,
                       flags = 0 \<rparr>)"

fun collectInstances ::
  "('v, 'd) Engine \<Rightarrow> 'b rt_globals \<Rightarrow> 'v \<Rightarrow> nat list \<Rightarrow> RTTLASInstance list
     \<Rightarrow> RTTLASInstance list option" where
  "collectInstances engine s instancesArr [] instances = Some instances"
| "collectInstances engine s instancesArr (i # rest) instances =
     (let instObj = getPropertyIndex engine instancesArr (of_nat i)
      in case marshalInstance engine s instObj of
           None \<Rightarrow> None
         | Some inst \<Rightarrow> collectInstances engine s instancesArr rest (instances @ [inst]))"

definition marshalTLASInstances ::
  "('v, 'd) Engine \<Rightarrow> 'b rt_globals \<Rightarrow> 'v list \<Rightarrow> RTTLASInstance list option" where
  "marshalTLASInstances engine s args =
     (case args of
        [] \<Rightarrow> None
      | instancesArr # _ \<Rightarrow>
          if \<not> isArray engine instancesArr then None
          else
            let lengthVal = getProperty engine instancesArr ''length'';
                count = double_to_size engine (toNumber engine lengthVal)
            in if count = 0 then None
               else collectInstances engine s instancesArr [0..<count] [])"

subsection \<open>Binding functions\<close>

text \<open>
  Each binding returns the script value it returns in the code together with the new
  globals.  The guard \<^verbatim>\<open>!g_rtBackend || !g_rtBackend->isSupported()\<close> is the first two
  cases.
\<close>

definition js_createGeometry ::
  "'b IRTBackend \<Rightarrow> ('v, 'd) Engine \<Rightarrow> 'v list \<Rightarrow> 'b rt_globals \<Rightarrow> 'v \<times> 'b rt_globals" where
  "js_createGeometry B engine args s =
     (case g_rtBackend s of
        None \<Rightarrow> (newNull engine, s)
      | Some b \<Rightarrow>
          (case isSupported B b of (supported, b1) \<Rightarrow>
             if \<not> supported then (newNull engine, s\<lparr>g_rtBackend := Some b1\<rparr>)
             else
               (case marshalGeometryDesc engine args of
                  None \<Rightarrow> (newNull engine, s\<lparr>g_rtBackend := Some b1\<rparr>)
                | Some desc \<Rightarrow>
                    (case createGeometry B desc b1 of (handle, b2) \<Rightarrow>
                       if geom_handle handle = nullptr
                       then (newNull engine, s\<lparr>g_rtBackend := Some b2\<rparr>)
                       else
                         let ident = g_nextGeometryId s
                         in (createGeometryJS engine ident,
                             s\<lparr> g_rtBackend := Some b2,
                                g_nextGeometryId := ident + 1,
                                g_geometries :=
                                  AList.update ident (handle\<lparr>geom_id := ident\<rparr>)
                                    (g_geometries s) \<rparr>)))))"

definition js_createBLAS ::
  "'b IRTBackend \<Rightarrow> ('v, 'd) Engine \<Rightarrow> 'v list \<Rightarrow> 'b rt_globals \<Rightarrow> 'v \<times> 'b rt_globals" where
  "js_createBLAS B engine args s =
     (case g_rtBackend s of
        None \<Rightarrow> (newNull engine, s)
      | Some b \<Rightarrow>
          (case isSupported B b of (supported, b1) \<Rightarrow>
             if \<not> supported then (newNull engine, s\<lparr>g_rtBackend := Some b1\<rparr>)
             else
               (case marshalBLASGeometries engine s args of
                  None \<Rightarrow> (newNull engine, s\<lparr>g_rtBackend := Some b1\<rparr>)
                | Some handles \<Rightarrow>
                    (case createBLAS B handles b1 of (handle, b2) \<Rightarrow>
                       if blas_handle handle = nullptr
                       then (newNull engine, s\<lparr>g_rtBackend := Some b2\<rparr>)
                       else
                         let ident = g_nextBLASId s
                         in (createBLASJS engine ident,
                             s\<lparr> g_rtBackend := Some b2,
                                g_nextBLASId := ident + 1,
                                g_blases :=
                                  AList.update ident (handle\<lparr>blas_id := ident\<rparr>)
                                    (g_blases s) \<rparr>)))))"

definition js_createTLAS ::
  "'b IRTBackend \<Rightarrow> ('v, 'd) Engine \<Rightarrow> 'v list \<Rightarrow> 'b rt_globals \<Rightarrow> 'v \<times> 'b rt_globals" where
  "js_createTLAS B engine args s =
     (case g_rtBackend s of
        None \<Rightarrow> (newNull engine, s)
      | Some b \<Rightarrow>
          (case isSupported B b of (supported, b1) \<Rightarrow>
             if \<not> supported then (newNull engine, s\<lparr>g_rtBackend := Some b1\<rparr>)
             else
               (case marshalTLASInstances engine s args of
                  None \<Rightarrow> (newNull engine, s\<lparr>g_rtBackend := Some b1\<rparr>)
                | Some instances \<Rightarrow>
                    (case createTLAS B instances b1 of (handle, b2) \<Rightarrow>
                       if tlas_handle handle = nullptr
                       then (newNull engine, s\<lparr>g_rtBackend := Some b2\<rparr>)
                       else
                         let ident = g_nextTLASId s
                         in (createTLASJS engine ident,
                             s\<lparr> g_rtBackend := Some b2,
                                g_nextTLASId := ident + 1,
                                g_tlases :=
                                  AList.update ident (handle\<lparr>tlas_id := ident\<rparr>)
                                    (g_tlases s) \<rparr>)))))"

definition js_updateTLAS ::
  "'b IRTBackend \<Rightarrow> ('v, 'd) Engine \<Rightarrow> 'v list \<Rightarrow> 'b rt_globals \<Rightarrow> 'v \<times> 'b rt_globals" where
  "js_updateTLAS B engine args s =
     (case g_rtBackend s of
        None \<Rightarrow> (newUndefined engine, s)
      | Some b \<Rightarrow>
          (case isSupported B b of (supported, b1) \<Rightarrow>
             if \<not> supported then (newUndefined engine, s\<lparr>g_rtBackend := Some b1\<rparr>)
             else if length args < 2 then (newUndefined engine, s\<lparr>g_rtBackend := Some b1\<rparr>)
             else
               let tlasId = getTLASId engine (args ! 0) in
               (case map_of (g_tlases s) tlasId of
                  None \<Rightarrow> (newUndefined engine, s\<lparr>g_rtBackend := Some b1\<rparr>)
                | Some tlas \<Rightarrow>
                    if \<not> isArray engine (args ! 1)
                    then (newUndefined engine, s\<lparr>g_rtBackend := Some b1\<rparr>)
                    else
                      let instancesArr = args ! 1;
                          lengthVal = getProperty engine instancesArr ''length'';
                          count = double_to_size engine (toNumber engine lengthVal)
                      in (case collectInstances engine s instancesArr [0..<count] [] of
                            None \<Rightarrow> (newUndefined engine, s\<lparr>g_rtBackend := Some b1\<rparr>)
                          | Some instances \<Rightarrow>
                              (newUndefined engine,
                               s\<lparr>g_rtBackend := Some (updateTLAS B tlas instances b1)\<rparr>)))))"

text \<open>
  The destroy functions: \<^verbatim>\<open>if (g_rtBackend) g_rtBackend->destroy...(it->second)\<close> is the
  \<open>map_option\<close>.
\<close>

definition js_destroyBLAS ::
  "'b IRTBackend \<Rightarrow> ('v, 'd) Engine \<Rightarrow> 'v list \<Rightarrow> 'b rt_globals \<Rightarrow> 'v \<times> 'b rt_globals" where
  "js_destroyBLAS B engine args s =
     (case args of
        [] \<Rightarrow> (newUndefined engine, s)
      | obj # _ \<Rightarrow>
          let blasId = getBLASId engine obj in
          (case map_of (g_blases s) blasId of
             None \<Rightarrow> (newUndefined engine, s)
           | Some found \<Rightarrow>
               (newUndefined engine,
                s\<lparr> g_rtBackend := map_option (destroyBLAS B found) (g_rtBackend s),
                   g_blases := AList.delete blasId (g_blases s) \<rparr>)))"

definition js_destroyTLAS ::
  "'b IRTBackend \<Rightarrow> ('v, 'd) Engine \<Rightarrow> 'v list \<Rightarrow> 'b rt_globals \<Rightarrow> 'v \<times> 'b rt_globals" where
  "js_destroyTLAS B engine args s =
     (case args of
        [] \<Rightarrow> (newUndefined engine, s)
      | obj # _ \<Rightarrow>
          let tlasId = getTLASId engine obj in
          (case map_of (g_tlases s) tlasId of
             None \<Rightarrow> (newUndefined engine, s)
           | Some found \<Rightarrow>
               (newUndefined engine,
                s\<lparr> g_rtBackend := map_option (destroyTLAS B found) (g_rtBackend s),
                   g_tlases := AList.delete tlasId (g_tlases s) \<rparr>)))"

definition js_destroyGeometry ::
  "'b IRTBackend \<Rightarrow> ('v, 'd) Engine \<Rightarrow> 'v list \<Rightarrow> 'b rt_globals \<Rightarrow> 'v \<times> 'b rt_globals" where
  "js_destroyGeometry B engine args s =
     (case args of
        [] \<Rightarrow> (newUndefined engine, s)
      | obj # _ \<Rightarrow>
          let geomId = getGeometryId engine obj in
          (case map_of (g_geometries s) geomId of
             None \<Rightarrow> (newUndefined engine, s)
           | Some found \<Rightarrow>
               (newUndefined engine,
                s\<lparr> g_rtBackend := map_option (destroyGeometry B found) (g_rtBackend s),
                   g_geometries := AList.delete geomId (g_geometries s) \<rparr>)))"

subsection \<open>Initialisation and teardown\<close>

text \<open>
  \<^verbatim>\<open>initializeRTBindings\<close> stores the backend object that \<^verbatim>\<open>createRTBackend()\<close> returns,
  here the argument \<open>created\<close>, and touches no other global.  The engine is present.
\<close>

definition initializeRTBindings :: "'b \<Rightarrow> 'b rt_globals \<Rightarrow> bool \<times> 'b rt_globals" where
  "initializeRTBindings created s = (True, s\<lparr>g_rtBackend := Some created\<rparr>)"

text \<open>
  \<^verbatim>\<open>cleanupRTBindings\<close>: the three loops hand every tracked handle to the backend, each
  table is cleared after its loop, the backend is released and the counters are reset.
\<close>

definition cleanupRTBindings :: "'b IRTBackend \<Rightarrow> 'b rt_globals \<Rightarrow> 'b rt_globals" where
  "cleanupRTBindings B s =
     (let s1 = s\<lparr> g_rtBackend :=
                    map_option (fold (\<lambda>(ident, handle). destroyTLAS B handle) (g_tlases s))
                      (g_rtBackend s),
                  g_tlases := [] \<rparr>;
          s2 = s1\<lparr> g_rtBackend :=
                     map_option (fold (\<lambda>(ident, handle). destroyBLAS B handle) (g_blases s1))
                       (g_rtBackend s1),
                   g_blases := [] \<rparr>;
          s3 = s2\<lparr> g_rtBackend :=
                     map_option
                       (fold (\<lambda>(ident, handle). destroyGeometry B handle) (g_geometries s2))
                       (g_rtBackend s2),
                   g_geometries := [] \<rparr>;
          s4 = s3\<lparr>g_rtBackend := None\<rparr>
      in s4\<lparr>g_nextGeometryId := 1, g_nextBLASId := 1, g_nextTLASId := 1\<rparr>)"

subsection \<open>Sequences of calls\<close>

text \<open>
  A script drives the bindings by a sequence of calls, each with its argument vector.
\<close>

datatype 'v rt_call =
    CreateGeometry "'v list"
  | CreateBLAS "'v list"
  | CreateTLAS "'v list"
  | UpdateTLAS "'v list"
  | DestroyGeometry "'v list"
  | DestroyBLAS "'v list"
  | DestroyTLAS "'v list"

fun call_binding ::
  "'b IRTBackend \<Rightarrow> ('v, 'd) Engine \<Rightarrow> 'v rt_call \<Rightarrow> 'b rt_globals \<Rightarrow> 'v \<times> 'b rt_globals" where
  "call_binding B engine (CreateGeometry args) s = js_createGeometry B engine args s"
| "call_binding B engine (CreateBLAS args) s = js_createBLAS B engine args s"
| "call_binding B engine (CreateTLAS args) s = js_createTLAS B engine args s"
| "call_binding B engine (UpdateTLAS args) s = js_updateTLAS B engine args s"
| "call_binding B engine (DestroyGeometry args) s = js_destroyGeometry B engine args s"
| "call_binding B engine (DestroyBLAS args) s = js_destroyBLAS B engine args s"
| "call_binding B engine (DestroyTLAS args) s = js_destroyTLAS B engine args s"

fun run_calls ::
  "'b IRTBackend \<Rightarrow> ('v, 'd) Engine \<Rightarrow> 'v rt_call list \<Rightarrow> 'b rt_globals \<Rightarrow> 'b rt_globals" where
  "run_calls B engine [] s = s"
| "run_calls B engine (c # cs) s = run_calls B engine cs (snd (call_binding B engine c s))"

text \<open>The three resource kinds, the allocator of a kind and the ids its table holds.\<close>

datatype rt_kind = Geometry | BLAS | TLAS

fun next_id :: "rt_kind \<Rightarrow> 'b rt_globals \<Rightarrow> u32" where
  "next_id Geometry s = g_nextGeometryId s"
| "next_id BLAS s = g_nextBLASId s"
| "next_id TLAS s = g_nextTLASId s"

fun registered_ids :: "rt_kind \<Rightarrow> 'b rt_globals \<Rightarrow> u32 list" where
  "registered_ids Geometry s = map fst (g_geometries s)"
| "registered_ids BLAS s = map fst (g_blases s)"
| "registered_ids TLAS s = map fst (g_tlases s)"

text \<open>
  The ids a sequence of calls allocates for one kind, in order.  A binding allocates an
  id exactly where it executes \<^verbatim>\<open>id = g_next...Id++\<close>, so an allocation shows as a
  changed allocator and the id is the allocator's value before the call.
\<close>

fun allocated_ids ::
  "rt_kind \<Rightarrow> 'b IRTBackend \<Rightarrow> ('v, 'd) Engine \<Rightarrow> 'v rt_call list \<Rightarrow> 'b rt_globals \<Rightarrow> u32 list" where
  "allocated_ids k B engine [] s = []"
| "allocated_ids k B engine (c # cs) s =
     (let s' = snd (call_binding B engine c s)
      in (if next_id k s' \<noteq> next_id k s then [next_id k s] else [])
           @ allocated_ids k B engine cs s')"




text \<open>The globals once \<^verbatim>\<open>initializeRTBindings\<close> has run on the statically initialised ones.\<close>

definition initialized :: "'b \<Rightarrow> 'b rt_globals" where
  "initialized created = snd (initializeRTBindings created static_init)"

text \<open>No table holds a handle whose native pointer is null.\<close>

definition no_null_handles :: "'b rt_globals \<Rightarrow> bool" where
  "no_null_handles s =
     (list_all (\<lambda>(ident, h). geom_handle h \<noteq> nullptr) (g_geometries s) \<and>
      list_all (\<lambda>(ident, h). blas_handle h \<noteq> nullptr) (g_blases s) \<and>
      list_all (\<lambda>(ident, h). tlas_handle h \<noteq> nullptr) (g_tlases s))"

text \<open>The globals a call that fails after the support query leaves: only the backend object
  may have changed, by the query.\<close>

definition after_support_query :: "'b IRTBackend \<Rightarrow> 'b rt_globals \<Rightarrow> 'b rt_globals" where
  "after_support_query B s =
     s\<lparr>g_rtBackend := map_option (\<lambda>b. snd (isSupported B b)) (g_rtBackend s)\<rparr>"

subsection \<open>A sample engine and a recording backend\<close>

text \<open>
  Concrete instances of the two interfaces, on which the bindings can be evaluated.
  Script values are a small datatype; the numbers of the sample engine are integers, and
  it converts a value that is no number to 0.
\<close>

datatype jsval =
    JSUndefined
  | JSNull
  | JSNumber int
  | JSString string
  | JSTypedArray "32 word list"
  | JSArray "jsval list"
  | JSObject "(string \<times> jsval) list"

definition sample_engine :: "(jsval, int) Engine" where
  "sample_engine =
     \<lparr> getProperty =
         (\<lambda>v name. case v of
            JSObject props \<Rightarrow>
              (case map_of props name of Some x \<Rightarrow> x | None \<Rightarrow> JSUndefined)
          | JSArray elems \<Rightarrow>
              if name = ''length'' then JSNumber (int (length elems)) else JSUndefined
          | _ \<Rightarrow> JSUndefined),
       getPropertyIndex =
         (\<lambda>v i. case v of
            JSArray elems \<Rightarrow> if unat i < length elems then elems ! unat i else JSUndefined
          | _ \<Rightarrow> JSUndefined),
       isUndefined = (\<lambda>v. v = JSUndefined),
       isObject =
         (\<lambda>v. case v of
            JSObject _ \<Rightarrow> True | JSArray _ \<Rightarrow> True | JSTypedArray _ \<Rightarrow> True | _ \<Rightarrow> False),
       isArray = (\<lambda>v. case v of JSArray _ \<Rightarrow> True | _ \<Rightarrow> False),
       toNumber = (\<lambda>v. case v of JSNumber n \<Rightarrow> n | _ \<Rightarrow> 0),
       getArrayBufferData =
         (\<lambda>v. case v of
            JSTypedArray elems \<Rightarrow> (Some elems, 4 * length elems)
          | _ \<Rightarrow> (None, 0)),
       newNull = JSNull,
       newUndefined = JSUndefined,
       newObject = JSObject [],
       newString = JSString,
       newNumber = JSNumber,
       setProperty =
         (\<lambda>obj name v. case obj of
            JSObject props \<Rightarrow> JSObject (AList.update name v props)
          | _ \<Rightarrow> obj),
       double_to_uint32 = word_of_int,
       double_to_size = nat,
       uint32_to_double = uint \<rparr>"

text \<open>
  A backend that supports ray tracing, keeps the list of the calls it has received and
  returns a fresh non-null native pointer from every creation.
\<close>

datatype backend_call =
    CreateGeometryCall RTGeometryDesc
  | DestroyGeometryCall RTGeometryHandle
  | CreateBLASCall "RTGeometryHandle list"
  | DestroyBLASCall RTBLASHandle
  | CreateTLASCall "RTTLASInstance list"
  | UpdateTLASCall RTTLASHandle "RTTLASInstance list"
  | DestroyTLASCall RTTLASHandle

definition RecordingBackend :: "backend_call list IRTBackend" where
  "RecordingBackend =
     \<lparr> isSupported = (\<lambda>calls. (True, calls)),
       createGeometry =
         (\<lambda>desc calls. (\<lparr>geom_handle = Suc (length calls), geom_id = 0\<rparr>,
                       calls @ [CreateGeometryCall desc])),
       destroyGeometry = (\<lambda>geometry calls. calls @ [DestroyGeometryCall geometry]),
       createBLAS =
         (\<lambda>geometries calls. (\<lparr>blas_handle = Suc (length calls), blas_id = 0\<rparr>,
                             calls @ [CreateBLASCall geometries])),
       destroyBLAS = (\<lambda>found calls. calls @ [DestroyBLASCall found]),
       createTLAS =
         (\<lambda>instances calls. (\<lparr>tlas_handle = Suc (length calls), tlas_id = 0\<rparr>,
                            calls @ [CreateTLASCall instances])),
       updateTLAS = (\<lambda>tlas instances calls. calls @ [UpdateTLASCall tlas instances]),
       destroyTLAS = (\<lambda>tlas calls. calls @ [DestroyTLASCall tlas]) \<rparr>"

text \<open>Sample script values: a triangle (nine floats, three indices), handle objects as the
  bindings build them, and an instance array.\<close>

definition triangle_vertices :: jsval where
  "triangle_vertices = JSTypedArray [0, 0, 0, f32_one, 0, 0, 0, f32_one, 0]"

definition triangle_options :: jsval where
  "triangle_options =
     JSObject [(''vertices'', triangle_vertices), (''indices'', JSTypedArray [0, 1, 2])]"

definition geometry_object :: "int \<Rightarrow> jsval" where
  "geometry_object n = JSObject [(''_type'', JSString ''geometry''), (''_id'', JSNumber n)]"

definition blas_object :: "int \<Rightarrow> jsval" where
  "blas_object n = JSObject [(''_type'', JSString ''blas''), (''_id'', JSNumber n)]"

definition tlas_object :: "int \<Rightarrow> jsval" where
  "tlas_object n = JSObject [(''_type'', JSString ''tlas''), (''_id'', JSNumber n)]"

text \<open>The globals after one geometry and one BLAS built from it were created on the
  recording backend.\<close>

definition one_blas_state :: "backend_call list rt_globals" where
  "one_blas_state =
     run_calls RecordingBackend sample_engine
       [CreateGeometry [triangle_options], CreateBLAS [JSArray [geometry_object 1]]]
       (initialized [])"

text \<open>The same globals after the BLAS was destroyed again.\<close>

definition destroyed_blas_state :: "backend_call list rt_globals" where
  "destroyed_blas_state =
     snd (js_destroyBLAS RecordingBackend sample_engine [blas_object 1] one_blas_state)"

text \<open>An instance that names a mask and flags, one whose transform has three floats, and
  geometry options whose index buffer is empty.\<close>

definition masked_instance :: jsval where
  "masked_instance =
     JSObject [(''blas'', blas_object 1), (''instanceId'', JSNumber 7),
               (''mask'', JSNumber 15), (''flags'', JSNumber 1)]"

definition short_transform_instance :: jsval where
  "short_transform_instance =
     JSObject [(''blas'', blas_object 1), (''transform'', JSTypedArray [5, 6, 7])]"

definition empty_indices_options :: jsval where
  "empty_indices_options =
     JSObject [(''vertices'', triangle_vertices), (''indices'', JSTypedArray [])]"

text \<open>An array of two instances: the first names an id, a mask and flags and has no
  transform, the second has a transform of three floats and no other field.\<close>

definition two_instances :: jsval where
  "two_instances = JSArray [masked_instance, short_transform_instance]"

text \<open>The globals after a TLAS with one instance of the BLAS was created as well.\<close>

definition one_tlas_state :: "backend_call list rt_globals" where
  "one_tlas_state =
     snd (js_createTLAS RecordingBackend sample_engine
            [JSArray [JSObject [(''blas'', blas_object 1)]]] one_blas_state)"

section \<open>Auxiliary lemmas\<close>

subsection \<open>What each binding leaves unchanged\<close>

lemma createGeometry_frame:
  "g_nextBLASId (snd (js_createGeometry B e args s)) = g_nextBLASId s"
  "g_nextTLASId (snd (js_createGeometry B e args s)) = g_nextTLASId s"
  "g_blases (snd (js_createGeometry B e args s)) = g_blases s"
  "g_tlases (snd (js_createGeometry B e args s)) = g_tlases s"
  by (simp_all add: js_createGeometry_def Let_def split: option.splits prod.splits)

lemma createGeometry_own:
  "(g_nextGeometryId (snd (js_createGeometry B e args s)) = g_nextGeometryId s \<and>
    g_geometries (snd (js_createGeometry B e args s)) = g_geometries s) \<or>
   (\<exists>h. geom_handle h \<noteq> nullptr \<and>
      g_nextGeometryId (snd (js_createGeometry B e args s)) = g_nextGeometryId s + 1 \<and>
      g_geometries (snd (js_createGeometry B e args s)) =
        AList.update (g_nextGeometryId s) (h\<lparr>geom_id := g_nextGeometryId s\<rparr>) (g_geometries s))"
  by (auto simp add: js_createGeometry_def Let_def split: option.splits prod.splits)

lemma createBLAS_frame:
  "g_nextGeometryId (snd (js_createBLAS B e args s)) = g_nextGeometryId s"
  "g_nextTLASId (snd (js_createBLAS B e args s)) = g_nextTLASId s"
  "g_geometries (snd (js_createBLAS B e args s)) = g_geometries s"
  "g_tlases (snd (js_createBLAS B e args s)) = g_tlases s"
  by (simp_all add: js_createBLAS_def Let_def split: option.splits prod.splits)

lemma createBLAS_own:
  "(g_nextBLASId (snd (js_createBLAS B e args s)) = g_nextBLASId s \<and>
    g_blases (snd (js_createBLAS B e args s)) = g_blases s) \<or>
   (\<exists>h. blas_handle h \<noteq> nullptr \<and>
      g_nextBLASId (snd (js_createBLAS B e args s)) = g_nextBLASId s + 1 \<and>
      g_blases (snd (js_createBLAS B e args s)) =
        AList.update (g_nextBLASId s) (h\<lparr>blas_id := g_nextBLASId s\<rparr>) (g_blases s))"
  by (auto simp add: js_createBLAS_def Let_def split: option.splits prod.splits)

lemma createTLAS_frame:
  "g_nextGeometryId (snd (js_createTLAS B e args s)) = g_nextGeometryId s"
  "g_nextBLASId (snd (js_createTLAS B e args s)) = g_nextBLASId s"
  "g_geometries (snd (js_createTLAS B e args s)) = g_geometries s"
  "g_blases (snd (js_createTLAS B e args s)) = g_blases s"
  by (simp_all add: js_createTLAS_def Let_def split: option.splits prod.splits)

lemma createTLAS_own:
  "(g_nextTLASId (snd (js_createTLAS B e args s)) = g_nextTLASId s \<and>
    g_tlases (snd (js_createTLAS B e args s)) = g_tlases s) \<or>
   (\<exists>h. tlas_handle h \<noteq> nullptr \<and>
      g_nextTLASId (snd (js_createTLAS B e args s)) = g_nextTLASId s + 1 \<and>
      g_tlases (snd (js_createTLAS B e args s)) =
        AList.update (g_nextTLASId s) (h\<lparr>tlas_id := g_nextTLASId s\<rparr>) (g_tlases s))"
  by (auto simp add: js_createTLAS_def Let_def split: option.splits prod.splits)

lemma updateTLAS_frame:
  "g_nextGeometryId (snd (js_updateTLAS B e args s)) = g_nextGeometryId s"
  "g_nextBLASId (snd (js_updateTLAS B e args s)) = g_nextBLASId s"
  "g_nextTLASId (snd (js_updateTLAS B e args s)) = g_nextTLASId s"
  "g_geometries (snd (js_updateTLAS B e args s)) = g_geometries s"
  "g_blases (snd (js_updateTLAS B e args s)) = g_blases s"
  "g_tlases (snd (js_updateTLAS B e args s)) = g_tlases s"
  by (simp_all add: js_updateTLAS_def Let_def split: option.splits prod.splits)

lemma destroyGeometry_frame:
  "g_nextGeometryId (snd (js_destroyGeometry B e args s)) = g_nextGeometryId s"
  "g_nextBLASId (snd (js_destroyGeometry B e args s)) = g_nextBLASId s"
  "g_nextTLASId (snd (js_destroyGeometry B e args s)) = g_nextTLASId s"
  "g_blases (snd (js_destroyGeometry B e args s)) = g_blases s"
  "g_tlases (snd (js_destroyGeometry B e args s)) = g_tlases s"
  by (simp_all add: js_destroyGeometry_def Let_def split: option.splits list.splits)

lemma destroyGeometry_own:
  "g_geometries (snd (js_destroyGeometry B e args s)) = g_geometries s \<or>
   (\<exists>i. g_geometries (snd (js_destroyGeometry B e args s)) = AList.delete i (g_geometries s))"
  by (auto simp add: js_destroyGeometry_def Let_def split: option.splits list.splits)

lemma destroyBLAS_frame:
  "g_nextGeometryId (snd (js_destroyBLAS B e args s)) = g_nextGeometryId s"
  "g_nextBLASId (snd (js_destroyBLAS B e args s)) = g_nextBLASId s"
  "g_nextTLASId (snd (js_destroyBLAS B e args s)) = g_nextTLASId s"
  "g_geometries (snd (js_destroyBLAS B e args s)) = g_geometries s"
  "g_tlases (snd (js_destroyBLAS B e args s)) = g_tlases s"
  by (simp_all add: js_destroyBLAS_def Let_def split: option.splits list.splits)

lemma destroyBLAS_own:
  "g_blases (snd (js_destroyBLAS B e args s)) = g_blases s \<or>
   (\<exists>i. g_blases (snd (js_destroyBLAS B e args s)) = AList.delete i (g_blases s))"
  by (auto simp add: js_destroyBLAS_def Let_def split: option.splits list.splits)

lemma destroyTLAS_frame:
  "g_nextGeometryId (snd (js_destroyTLAS B e args s)) = g_nextGeometryId s"
  "g_nextBLASId (snd (js_destroyTLAS B e args s)) = g_nextBLASId s"
  "g_nextTLASId (snd (js_destroyTLAS B e args s)) = g_nextTLASId s"
  "g_geometries (snd (js_destroyTLAS B e args s)) = g_geometries s"
  "g_blases (snd (js_destroyTLAS B e args s)) = g_blases s"
  by (simp_all add: js_destroyTLAS_def Let_def split: option.splits list.splits)

lemma destroyTLAS_own:
  "g_tlases (snd (js_destroyTLAS B e args s)) = g_tlases s \<or>
   (\<exists>i. g_tlases (snd (js_destroyTLAS B e args s)) = AList.delete i (g_tlases s))"
  by (auto simp add: js_destroyTLAS_def Let_def split: option.splits list.splits)

text \<open>
  One call moves the allocator of a kind by zero or one, and an id enters a table only as
  the value the allocator had before the call.
\<close>

lemma call_binding_step:
  "(next_id k (snd (call_binding B e c s)) = next_id k s \<and>
    set (registered_ids k (snd (call_binding B e c s))) \<subseteq> set (registered_ids k s)) \<or>
   (next_id k (snd (call_binding B e c s)) = next_id k s + 1 \<and>
    set (registered_ids k (snd (call_binding B e c s)))
      \<subseteq> insert (next_id k s) (set (registered_ids k s)))"
proof (cases c)
  case (CreateGeometry args)
  with createGeometry_own [of B e args s] show ?thesis
    by (cases k; elim disjE exE conjE) (simp_all add: createGeometry_frame dom_update)
next
  case (CreateBLAS args)
  with createBLAS_own [of B e args s] show ?thesis
    by (cases k; elim disjE exE conjE) (simp_all add: createBLAS_frame dom_update)
next
  case (CreateTLAS args)
  with createTLAS_own [of B e args s] show ?thesis
    by (cases k; elim disjE exE conjE) (simp_all add: createTLAS_frame dom_update)
next
  case (UpdateTLAS args)
  then show ?thesis
    by (cases k) (simp_all add: updateTLAS_frame)
next
  case (DestroyGeometry args)
  with destroyGeometry_own [of B e args s] show ?thesis
    by (cases k; elim disjE exE conjE) (simp_all add: destroyGeometry_frame dom_delete_subset)
next
  case (DestroyBLAS args)
  with destroyBLAS_own [of B e args s] show ?thesis
    by (cases k; elim disjE exE conjE) (simp_all add: destroyBLAS_frame dom_delete_subset)
next
  case (DestroyTLAS args)
  with destroyTLAS_own [of B e args s] show ?thesis
    by (cases k; elim disjE exE conjE) (simp_all add: destroyTLAS_frame dom_delete_subset)
qed

lemma upt_Suc_shift: "[0..<Suc m] = 0 # map Suc [0..<m]"
  by (simp add: upt_conv_Cons map_Suc_upt del: upt_Suc)

lemma allocated_ids_consecutive:
  "allocated_ids k B e cs s =
     map (\<lambda>j. next_id k s + of_nat j) [0..<length (allocated_ids k B e cs s)]"
proof (induction cs arbitrary: s)
  case Nil
  show ?case by simp
next
  case (Cons c cs)
  let ?s' = "snd (call_binding B e c s)"
  let ?m = "length (allocated_ids k B e cs ?s')"
  have IH: "allocated_ids k B e cs ?s' = map (\<lambda>j. next_id k ?s' + of_nat j) [0..<?m]"
    by (rule Cons.IH)
  show ?case
  proof (cases "next_id k ?s' = next_id k s")
    case True
    then show ?thesis using IH by (simp add: Let_def)
  next
    case False
    with call_binding_step [of k B e c s] have nxt: "next_id k ?s' = next_id k s + 1"
      by auto
    have "allocated_ids k B e (c # cs) s = next_id k s # allocated_ids k B e cs ?s'"
      using False by (simp add: Let_def)
    also have "\<dots> = next_id k s # map (\<lambda>j. next_id k s + 1 + of_nat j) [0..<?m]"
      using IH nxt by simp
    also have "\<dots> = map (\<lambda>j. next_id k s + of_nat j) [0..<Suc ?m]"
      by (simp only: upt_Suc_shift list.map map_map comp_def of_nat_Suc of_nat_0 add_0_right)
         (simp add: add.assoc add.commute)
    finally show ?thesis using False by (simp add: Let_def del: upt_Suc)
  qed
qed

lemma run_calls_next_id:
  "next_id k (run_calls B e cs s) = next_id k s + of_nat (length (allocated_ids k B e cs s))"
proof (induction cs arbitrary: s)
  case Nil
  show ?case by simp
next
  case (Cons c cs)
  from call_binding_step [of k B e c s] Cons.IH [of "snd (call_binding B e c s)"]
  show ?case by (auto simp add: Let_def)
qed

lemma run_calls_registered:
  "set (registered_ids k (run_calls B e cs s))
     \<subseteq> set (registered_ids k s) \<union> set (allocated_ids k B e cs s)"
proof (induction cs arbitrary: s)
  case Nil
  show ?case by simp
next
  case (Cons c cs)
  from call_binding_step [of k B e c s] Cons.IH [of "snd (call_binding B e c s)"]
  show ?case by (auto simp add: Let_def)
qed

subsection \<open>Evaluating the sample instances\<close>

lemmas sample_defs =
  sample_engine_def RecordingBackend_def StubRTBackend_def initialized_def
  initializeRTBindings_def static_init_def triangle_options_def triangle_vertices_def
  geometry_object_def blas_object_def tlas_object_def one_blas_state_def

lemmas binding_defs =
  js_createGeometry_def js_createBLAS_def js_createTLAS_def js_updateTLAS_def
  js_destroyGeometry_def js_destroyBLAS_def js_destroyTLAS_def marshalGeometryDesc_def
  marshalBLASGeometries_def marshalTLASInstances_def marshalInstance_def
  extractFloat32Array_def extractUint32Array_def getGeometryId_def getBLASId_def getTLASId_def
  createGeometryJS_def createBLASJS_def createTLASJS_def after_support_query_def

lemma one_blas_state_eq:
  "one_blas_state =
     \<lparr> g_rtBackend = Some
         [CreateGeometryCall
            \<lparr> vertices = Some [0, 0, 0, f32_one, 0, 0, 0, f32_one, 0],
              vertexCount = 3, vertexStride = 12, vertexOffset = 0,
              indices = Some [0, 1, 2], indexCount = 3 \<rparr>,
          CreateBLASCall [\<lparr>geom_handle = 1, geom_id = 1\<rparr>]],
       g_nextGeometryId = 2, g_nextBLASId = 2, g_nextTLASId = 1,
       g_geometries = [(1, \<lparr>geom_handle = 1, geom_id = 1\<rparr>)],
       g_blases = [(1, \<lparr>blas_handle = 2, blas_id = 1\<rparr>)],
       g_tlases = [] \<rparr>"
  by (simp add: sample_defs binding_defs)

subsection \<open>Destroying resources\<close>

lemma destroyGeometry_unknown:
  "map_of (g_geometries s) (getGeometryId e obj) = None \<Longrightarrow>
   js_destroyGeometry B e (obj # rest) s = (newUndefined e, s)"
  by (simp add: js_destroyGeometry_def)

lemma destroyBLAS_unknown:
  "map_of (g_blases s) (getBLASId e obj) = None \<Longrightarrow>
   js_destroyBLAS B e (obj # rest) s = (newUndefined e, s)"
  by (simp add: js_destroyBLAS_def)

lemma destroyTLAS_unknown:
  "map_of (g_tlases s) (getTLASId e obj) = None \<Longrightarrow>
   js_destroyTLAS B e (obj # rest) s = (newUndefined e, s)"
  by (simp add: js_destroyTLAS_def)

lemma destroyGeometry_twice:
  "js_destroyGeometry B e args (snd (js_destroyGeometry B e args s)) =
     (newUndefined e, snd (js_destroyGeometry B e args s))"
  by (simp add: js_destroyGeometry_def Let_def delete_conv split: list.splits option.splits)

lemma destroyBLAS_twice:
  "js_destroyBLAS B e args (snd (js_destroyBLAS B e args s)) =
     (newUndefined e, snd (js_destroyBLAS B e args s))"
  by (simp add: js_destroyBLAS_def Let_def delete_conv split: list.splits option.splits)

lemma destroyTLAS_twice:
  "js_destroyTLAS B e args (snd (js_destroyTLAS B e args s)) =
     (newUndefined e, snd (js_destroyTLAS B e args s))"
  by (simp add: js_destroyTLAS_def Let_def delete_conv split: list.splits option.splits)

lemma destroy_returns_undefined:
  "fst (js_destroyGeometry B e args s) = newUndefined e"
  "fst (js_destroyBLAS B e args s) = newUndefined e"
  "fst (js_destroyTLAS B e args s) = newUndefined e"
  by (simp_all add: js_destroyGeometry_def js_destroyBLAS_def js_destroyTLAS_def Let_def
        split: list.splits option.splits)

subsection \<open>Marshaling TLAS instances\<close>

lemma destroyed_blas_state_eq:
  "destroyed_blas_state =
     \<lparr> g_rtBackend = Some
         [CreateGeometryCall
            \<lparr> vertices = Some [0, 0, 0, f32_one, 0, 0, 0, f32_one, 0],
              vertexCount = 3, vertexStride = 12, vertexOffset = 0,
              indices = Some [0, 1, 2], indexCount = 3 \<rparr>,
          CreateBLASCall [\<lparr>geom_handle = 1, geom_id = 1\<rparr>],
          DestroyBLASCall \<lparr>blas_handle = 2, blas_id = 1\<rparr>],
       g_nextGeometryId = 2, g_nextBLASId = 2, g_nextTLASId = 1,
       g_geometries = [(1, \<lparr>geom_handle = 1, geom_id = 1\<rparr>)],
       g_blases = [],
       g_tlases = [] \<rparr>"
  by (simp add: destroyed_blas_state_def one_blas_state_eq js_destroyBLAS_def getBLASId_def
        sample_engine_def RecordingBackend_def blas_object_def)

lemma one_tlas_state_eq:
  "one_tlas_state =
     \<lparr> g_rtBackend = Some
         [CreateGeometryCall
            \<lparr> vertices = Some [0, 0, 0, f32_one, 0, 0, 0, f32_one, 0],
              vertexCount = 3, vertexStride = 12, vertexOffset = 0,
              indices = Some [0, 1, 2], indexCount = 3 \<rparr>,
          CreateBLASCall [\<lparr>geom_handle = 1, geom_id = 1\<rparr>],
          CreateTLASCall
            [\<lparr> blas = \<lparr>blas_handle = 2, blas_id = 1\<rparr>, transform = default_transform,
                instanceId = 0, mask_field = 0xFF, flags = 0 \<rparr>]],
       g_nextGeometryId = 2, g_nextBLASId = 2, g_nextTLASId = 2,
       g_geometries = [(1, \<lparr>geom_handle = 1, geom_id = 1\<rparr>)],
       g_blases = [(1, \<lparr>blas_handle = 2, blas_id = 1\<rparr>)],
       g_tlases = [(1, \<lparr>tlas_handle = 3, tlas_id = 1\<rparr>)] \<rparr>"
  by (simp add: one_tlas_state_def one_blas_state_eq blas_object_def js_createTLAS_def
        marshalTLASInstances_def marshalInstance_def getBLASId_def extractFloat32Array_def
        sample_engine_def RecordingBackend_def)

text \<open>
  The instance list of \<^verbatim>\<open>js_createTLAS\<close> is the result of the loop, and
  \<^verbatim>\<open>js_updateTLAS\<close> hands the result of the same loop to the backend.
\<close>

lemma marshalTLASInstances_loop:
  "marshalTLASInstances e s (instancesArr # rest) = Some instances \<Longrightarrow>
   collectInstances e s instancesArr
     [0..<double_to_size e (toNumber e (getProperty e instancesArr ''length''))] [] =
   Some instances"
  by (simp add: marshalTLASInstances_def Let_def split: if_splits)

lemma updateTLAS_backend_call:
  assumes "g_rtBackend s = Some b" and "isSupported B b = (True, b1)"
    and "map_of (g_tlases s) (getTLASId e tlasObj) = Some tlas"
    and "isArray e instancesArr"
    and "collectInstances e s instancesArr
           [0..<double_to_size e (toNumber e (getProperty e instancesArr ''length''))] [] =
         Some instances"
  shows "js_updateTLAS B e (tlasObj # instancesArr # rest) s =
           (newUndefined e, s\<lparr>g_rtBackend := Some (updateTLAS B tlas instances b1)\<rparr>)"
  using assms by (simp add: js_updateTLAS_def Let_def)

lemma marshalInstance_None_iff:
  "marshalInstance e s instObj = None \<longleftrightarrow>
   map_of (g_blases s) (getBLASId e (getProperty e instObj ''blas'')) = None"
  by (simp add: marshalInstance_def Let_def split: option.splits)

lemma collectInstances_fails:
  "i \<in> set idxs \<Longrightarrow> marshalInstance e s (getPropertyIndex e arr (of_nat i)) = None \<Longrightarrow>
   collectInstances e s arr idxs acc = None"
  by (induction idxs arbitrary: acc) (auto simp add: Let_def split: option.splits)

lemma collectInstances_Some:
  "collectInstances e s arr idxs acc = Some insts \<Longrightarrow>
   insts = acc @ map (\<lambda>i. the (marshalInstance e s (getPropertyIndex e arr (of_nat i)))) idxs"
proof (induction idxs arbitrary: acc)
  case Nil
  then show ?case by simp
next
  case (Cons a idxs)
  then obtain x where x: "marshalInstance e s (getPropertyIndex e arr (of_nat a)) = Some x"
    and rest: "collectInstances e s arr idxs (acc @ [x]) = Some insts"
    by (auto simp add: Let_def split: option.splits)
  from Cons.IH [OF rest] x show ?case by simp
qed

lemma collectInstances_nth:
  assumes "collectInstances e s arr [0..<count] [] = Some insts" and "i < count"
  shows "marshalInstance e s (getPropertyIndex e arr (of_nat i)) = Some (insts ! i)"
proof -
  have "marshalInstance e s (getPropertyIndex e arr (of_nat i)) \<noteq> None"
    using assms collectInstances_fails [of i "[0..<count]" e s arr "[]"] by auto
  moreover have "insts ! i = the (marshalInstance e s (getPropertyIndex e arr (of_nat i)))"
    using collectInstances_Some [OF assms(1)] assms(2) by simp
  ultimately show ?thesis by auto
qed

lemma collectInstances_length:
  "collectInstances e s arr [0..<count] [] = Some insts \<Longrightarrow> length insts = count"
  using collectInstances_Some [of e s arr "[0..<count]" "[]" insts] by simp

lemma marshalInstance_fields:
  assumes "marshalInstance e s instObj = Some inst"
  shows "mask_field inst = 0xFF" and "flags inst = 0"
    and "instanceId inst =
           (if isUndefined e (getProperty e instObj ''instanceId'') then 0
            else double_to_uint32 e (toNumber e (getProperty e instObj ''instanceId'')))"
    and "map_of (g_blases s) (getBLASId e (getProperty e instObj ''blas'')) = Some (blas inst)"
  using assms by (auto simp add: marshalInstance_def Let_def split: option.splits)



text \<open>
  When every instance resolves, the loop returns one marshaled instance per array element,
  and both bindings hand this list to the backend.
\<close>

lemma collectInstances_total:
  assumes "\<forall>i \<in> set idxs. marshalInstance e s (getPropertyIndex e arr (of_nat i)) \<noteq> None"
  shows "collectInstances e s arr idxs acc =
           Some (acc @ map (\<lambda>i. the (marshalInstance e s (getPropertyIndex e arr (of_nat i)))) idxs)"
  using assms by (induction idxs arbitrary: acc) (auto simp add: Let_def)

lemma instance_loop_result:
  assumes "\<forall>i<count. map_of (g_blases s)
             (getBLASId e (getProperty e (getPropertyIndex e arr (of_nat i)) ''blas'')) \<noteq> None"
  shows "\<exists>instances.
           collectInstances e s arr [0..<count] [] = Some instances \<and>
           length instances = count \<and>
           (\<forall>i<count. marshalInstance e s (getPropertyIndex e arr (of_nat i))
                         = Some (instances ! i))"
proof -
  have all: "\<forall>i \<in> set [0..<count].
               marshalInstance e s (getPropertyIndex e arr (of_nat i)) \<noteq> None"
    using assms by (simp add: marshalInstance_None_iff)
  from collectInstances_total [OF all, of "[]"]
  obtain instances where run: "collectInstances e s arr [0..<count] [] = Some instances"
    by simp
  from collectInstances_length [OF run] collectInstances_nth [OF run] run
  show ?thesis by blast
qed

lemma tlas_bindings_pass_loop_result:
  assumes "g_rtBackend s = Some b" and "isSupported B b = (True, b1)"
    and "isArray e instancesArr"
    and "count = double_to_size e (toNumber e (getProperty e instancesArr ''length''))"
    and "\<forall>i<count. map_of (g_blases s)
           (getBLASId e (getProperty e (getPropertyIndex e instancesArr (of_nat i)) ''blas''))
         \<noteq> None"
  shows "\<exists>instances.
           length instances = count \<and>
           (\<forall>i<count. marshalInstance e s (getPropertyIndex e instancesArr (of_nat i))
                         = Some (instances ! i)) \<and>
           (count \<noteq> 0 \<longrightarrow>
              js_createTLAS B e (instancesArr # rest) s =
                (case createTLAS B instances b1 of (handle, b2) \<Rightarrow>
                   if tlas_handle handle = nullptr
                   then (newNull e, s\<lparr>g_rtBackend := Some b2\<rparr>)
                   else (createTLASJS e (g_nextTLASId s),
                         s\<lparr> g_rtBackend := Some b2,
                            g_nextTLASId := g_nextTLASId s + 1,
                            g_tlases :=
                              AList.update (g_nextTLASId s) (handle\<lparr>tlas_id := g_nextTLASId s\<rparr>)
                                (g_tlases s) \<rparr>))) \<and>
           (map_of (g_tlases s) (getTLASId e tlasObj) = Some tlas \<longrightarrow>
              js_updateTLAS B e (tlasObj # instancesArr # rest) s =
                (newUndefined e, s\<lparr>g_rtBackend := Some (updateTLAS B tlas instances b1)\<rparr>))"
proof -
  from instance_loop_result [OF assms(5)]
  obtain instances where run: "collectInstances e s instancesArr [0..<count] [] = Some instances"
    and len: "length instances = count"
    and each: "\<forall>i<count. marshalInstance e s (getPropertyIndex e instancesArr (of_nat i))
                 = Some (instances ! i)"
    by blast
  have create: "js_createTLAS B e (instancesArr # rest) s =
                (case createTLAS B instances b1 of (handle, b2) \<Rightarrow>
                   if tlas_handle handle = nullptr
                   then (newNull e, s\<lparr>g_rtBackend := Some b2\<rparr>)
                   else (createTLASJS e (g_nextTLASId s),
                         s\<lparr> g_rtBackend := Some b2,
                            g_nextTLASId := g_nextTLASId s + 1,
                            g_tlases :=
                              AList.update (g_nextTLASId s) (handle\<lparr>tlas_id := g_nextTLASId s\<rparr>)
                                (g_tlases s) \<rparr>))"
    if "count \<noteq> 0"
    using that assms(1-4) run
    by (simp add: js_createTLAS_def marshalTLASInstances_def Let_def split: prod.splits)
  have update: "js_updateTLAS B e (tlasObj # instancesArr # rest) s =
                (newUndefined e, s\<lparr>g_rtBackend := Some (updateTLAS B tlas instances b1)\<rparr>)"
    if "map_of (g_tlases s) (getTLASId e tlasObj) = Some tlas"
    using that assms(1-4) run
    by (intro updateTLAS_backend_call) simp_all
  from len each create update show ?thesis by blast
qed

text \<open>The sample values the two bindings are evaluated on.\<close>

lemma two_instances_facts:
  "isArray sample_engine two_instances"
  "double_to_size sample_engine
     (toNumber sample_engine (getProperty sample_engine two_instances ''length'')) = 2"
  "getPropertyIndex sample_engine two_instances 0 = masked_instance"
  "getPropertyIndex sample_engine two_instances 1 = short_transform_instance"
  "getBLASId sample_engine (getProperty sample_engine masked_instance ''blas'') = 1"
  "getBLASId sample_engine (getProperty sample_engine short_transform_instance ''blas'') = 1"
  "getProperty sample_engine masked_instance ''instanceId'' = JSNumber 7"
  "getProperty sample_engine short_transform_instance ''instanceId'' = JSUndefined"
  "getArrayBufferData sample_engine (getProperty sample_engine masked_instance ''transform'')
     = (None, 0)"
  "getArrayBufferData sample_engine
     (getProperty sample_engine short_transform_instance ''transform'') = (Some [5, 6, 7], 12)"
  by (simp_all add: two_instances_def masked_instance_def short_transform_instance_def
        blas_object_def getBLASId_def sample_engine_def)

lemma sample_engine_numbers:
  "isUndefined sample_engine v \<longleftrightarrow> v = JSUndefined"
  "double_to_uint32 sample_engine (toNumber sample_engine (JSNumber n)) = word_of_int n"
  "newNull sample_engine = JSNull"
  "newUndefined sample_engine = JSUndefined"
  by (simp_all add: sample_engine_def)

lemma less_two_cases: "(\<forall>i<(2::nat). P i) \<longleftrightarrow> P 0 \<and> P (Suc 0)"
  by (auto simp add: less_Suc_eq numeral_2_eq_2)

lemma sample_states_facts:
  "g_rtBackend one_blas_state = Some (the (g_rtBackend one_blas_state))"
  "g_rtBackend one_tlas_state = Some (the (g_rtBackend one_tlas_state))"
  "map_of (g_blases one_blas_state) 1 = Some \<lparr>blas_handle = 2, blas_id = 1\<rparr>"
  "map_of (g_blases one_tlas_state) 1 = Some \<lparr>blas_handle = 2, blas_id = 1\<rparr>"
  "map_of (g_tlases one_tlas_state) (getTLASId sample_engine (tlas_object 1))
     = Some \<lparr>tlas_handle = 3, tlas_id = 1\<rparr>"
  by (simp_all add: one_blas_state_eq one_tlas_state_eq getTLASId_def tlas_object_def
        sample_engine_def)

lemma recording_backend_facts:
  "isSupported RecordingBackend calls = (True, calls)"
  "createTLAS RecordingBackend instances calls =
     (\<lparr>tlas_handle = Suc (length calls), tlas_id = 0\<rparr>, calls @ [CreateTLASCall instances])"
  "updateTLAS RecordingBackend tlas instances calls = calls @ [UpdateTLASCall tlas instances]"
  by (simp_all add: RecordingBackend_def)

subsection \<open>Buffers of a geometry\<close>

lemma marshalGeometryDesc_no_vertices:
  assumes "fst (getArrayBufferData e (getProperty e options ''vertices'')) = None \<or>
           snd (getArrayBufferData e (getProperty e options ''vertices'')) = 0"
  shows "marshalGeometryDesc e (options # rest) = None"
  using assms
  by (auto simp add: marshalGeometryDesc_def extractFloat32Array_def Let_def
        split: option.splits prod.splits)

lemma createGeometry_not_marshaled:
  "marshalGeometryDesc e args = None \<Longrightarrow>
   js_createGeometry B e args s = (newNull e, after_support_query B s)"
  by (simp add: js_createGeometry_def after_support_query_def split: option.splits prod.splits)

text \<open>
  With valid vertices and an index buffer whose extraction fails, the binding reaches the
  backend with a descriptor that has no indices.
\<close>

lemma createGeometry_without_indices:
  assumes "g_rtBackend s = Some b" and "isSupported B b = (True, b1)"
    and "isObject e options"
    and "getArrayBufferData e (getProperty e options ''vertices'') = (Some verts, byteSize)"
    and "4 \<le> byteSize"
    and "fst (getArrayBufferData e (getProperty e options ''indices'')) = None \<or>
         snd (getArrayBufferData e (getProperty e options ''indices'')) = 0"
  shows "js_createGeometry B e (options # rest) s =
           (case createGeometry B
                   \<lparr> vertices = Some verts,
                     vertexCount = byteSize div 4 div 3,
                     vertexStride =
                       (if isUndefined e (getProperty e options ''vertexStride'') then 12
                        else double_to_size e (toNumber e (getProperty e options ''vertexStride''))),
                     vertexOffset =
                       (if isUndefined e (getProperty e options ''vertexOffset'') then 0
                        else double_to_size e (toNumber e (getProperty e options ''vertexOffset''))),
                     indices = None,
                     indexCount = 0 \<rparr> b1 of
              (handle, b2) \<Rightarrow>
                if geom_handle handle = nullptr
                then (newNull e, s\<lparr>g_rtBackend := Some b2\<rparr>)
                else (createGeometryJS e (g_nextGeometryId s),
                      s\<lparr> g_rtBackend := Some b2,
                         g_nextGeometryId := g_nextGeometryId s + 1,
                         g_geometries :=
                           AList.update (g_nextGeometryId s)
                             (handle\<lparr>geom_id := g_nextGeometryId s\<rparr>) (g_geometries s) \<rparr>))"
proof -
  from assms(5) have nz: "byteSize \<noteq> 0" "byteSize div 4 \<noteq> 0"
    by auto
  from assms(6) have extracted: "extractUint32Array e (getProperty e options ''indices'') = None"
    by (cases "getArrayBufferData e (getProperty e options ''indices'')")
       (auto simp add: extractUint32Array_def split: option.splits)
  have desc: "marshalGeometryDesc e (options # rest) =
          Some \<lparr> vertices = Some verts,
                     vertexCount = byteSize div 4 div 3,
                     vertexStride =
                       (if isUndefined e (getProperty e options ''vertexStride'') then 12
                        else double_to_size e (toNumber e (getProperty e options ''vertexStride''))),
                     vertexOffset =
                       (if isUndefined e (getProperty e options ''vertexOffset'') then 0
                        else double_to_size e (toNumber e (getProperty e options ''vertexOffset''))),
                     indices = None,
                     indexCount = 0 \<rparr>"
    using assms(3,4) nz extracted
    by (simp add: marshalGeometryDesc_def extractFloat32Array_def Let_def)
  show ?thesis
    using assms(1,2) by (simp add: js_createGeometry_def desc Let_def split: prod.splits)
qed

lemma empty_indices_facts:
  "isObject sample_engine empty_indices_options"
  "getArrayBufferData sample_engine (getProperty sample_engine empty_indices_options ''vertices'')
     = (Some [0, 0, 0, f32_one, 0, 0, 0, f32_one, 0], 36)"
  "getArrayBufferData sample_engine (JSTypedArray elems) = (Some elems, 4 * length elems)"
  "getProperty sample_engine empty_indices_options ''vertexStride'' = JSUndefined"
  "getProperty sample_engine empty_indices_options ''vertexOffset'' = JSUndefined"
  "getProperty sample_engine empty_indices_options ''indices'' = JSTypedArray []"
  "isUndefined sample_engine v \<longleftrightarrow> v = JSUndefined"
  "newNull sample_engine = JSNull"
  "createGeometryJS sample_engine 1 = geometry_object 1"
  by (simp_all add: sample_engine_def empty_indices_options_def triangle_vertices_def
        createGeometryJS_def geometry_object_def)

lemma initialized_recording_facts:
  "g_rtBackend (initialized []) = Some []"
  "g_nextGeometryId (initialized ([] :: backend_call list)) = 1"
  "g_geometries (initialized ([] :: backend_call list)) = []"
  "isSupported RecordingBackend calls = (True, calls)"
  "createGeometry RecordingBackend desc calls =
     (\<lparr>geom_handle = Suc (length calls), geom_id = 0\<rparr>, calls @ [CreateGeometryCall desc])"
  "after_support_query RecordingBackend (initialized []) = initialized []"
  by (simp_all add: after_support_query_def sample_defs)

subsection \<open>Registration of created resources\<close>

lemma list_all_update:
  "list_all (\<lambda>(ident, h). P h) al \<Longrightarrow> P v \<Longrightarrow> list_all (\<lambda>(ident, h). P h) (AList.update k v al)"
  by (induction al) auto

lemma list_all_delete: "list_all Q al \<Longrightarrow> list_all Q (AList.delete k al)"
  by (auto simp add: AList.delete_eq list_all_iff)

lemma call_binding_no_null:
  assumes "no_null_handles s"
  shows "no_null_handles (snd (call_binding B e c s))"
proof (cases c)
  case (CreateGeometry args)
  with createGeometry_own [of B e args s] assms show ?thesis
    by (elim disjE exE conjE)
       (simp_all add: no_null_handles_def createGeometry_frame list_all_update)
next
  case (CreateBLAS args)
  with createBLAS_own [of B e args s] assms show ?thesis
    by (elim disjE exE conjE)
       (simp_all add: no_null_handles_def createBLAS_frame list_all_update)
next
  case (CreateTLAS args)
  with createTLAS_own [of B e args s] assms show ?thesis
    by (elim disjE exE conjE)
       (simp_all add: no_null_handles_def createTLAS_frame list_all_update)
next
  case (UpdateTLAS args)
  with assms show ?thesis
    by (simp add: no_null_handles_def updateTLAS_frame)
next
  case (DestroyGeometry args)
  with destroyGeometry_own [of B e args s] assms show ?thesis
    by (elim disjE exE conjE)
       (simp_all add: no_null_handles_def destroyGeometry_frame list_all_delete)
next
  case (DestroyBLAS args)
  with destroyBLAS_own [of B e args s] assms show ?thesis
    by (elim disjE exE conjE)
       (simp_all add: no_null_handles_def destroyBLAS_frame list_all_delete)
next
  case (DestroyTLAS args)
  with destroyTLAS_own [of B e args s] assms show ?thesis
    by (elim disjE exE conjE)
       (simp_all add: no_null_handles_def destroyTLAS_frame list_all_delete)
qed

lemma run_calls_no_null:
  "no_null_handles s \<Longrightarrow> no_null_handles (run_calls B e cs s)"
  by (induction cs arbitrary: s) (simp_all add: call_binding_no_null)

lemma initialized_no_null: "no_null_handles (initialized created)"
  by (simp add: no_null_handles_def initialized_def initializeRTBindings_def static_init_def)

lemma createGeometry_backend_result:
  assumes "g_rtBackend s = Some b" and "isSupported B b = (True, b1)"
    and "marshalGeometryDesc e args = Some desc" and "createGeometry B desc b1 = (h, b2)"
  shows "js_createGeometry B e args s =
           (if geom_handle h = nullptr then (newNull e, s\<lparr>g_rtBackend := Some b2\<rparr>)
            else (createGeometryJS e (g_nextGeometryId s),
                  s\<lparr> g_rtBackend := Some b2,
                     g_nextGeometryId := g_nextGeometryId s + 1,
                     g_geometries :=
                       AList.update (g_nextGeometryId s) (h\<lparr>geom_id := g_nextGeometryId s\<rparr>)
                         (g_geometries s) \<rparr>))"
  using assms by (simp add: js_createGeometry_def Let_def)

lemma createBLAS_backend_result:
  assumes "g_rtBackend s = Some b" and "isSupported B b = (True, b1)"
    and "marshalBLASGeometries e s args = Some handles" and "createBLAS B handles b1 = (h, b2)"
  shows "js_createBLAS B e args s =
           (if blas_handle h = nullptr then (newNull e, s\<lparr>g_rtBackend := Some b2\<rparr>)
            else (createBLASJS e (g_nextBLASId s),
                  s\<lparr> g_rtBackend := Some b2,
                     g_nextBLASId := g_nextBLASId s + 1,
                     g_blases :=
                       AList.update (g_nextBLASId s) (h\<lparr>blas_id := g_nextBLASId s\<rparr>)
                         (g_blases s) \<rparr>))"
  using assms by (simp add: js_createBLAS_def Let_def)

lemma createTLAS_backend_result:
  assumes "g_rtBackend s = Some b" and "isSupported B b = (True, b1)"
    and "marshalTLASInstances e s args = Some instances"
    and "createTLAS B instances b1 = (h, b2)"
  shows "js_createTLAS B e args s =
           (if tlas_handle h = nullptr then (newNull e, s\<lparr>g_rtBackend := Some b2\<rparr>)
            else (createTLASJS e (g_nextTLASId s),
                  s\<lparr> g_rtBackend := Some b2,
                     g_nextTLASId := g_nextTLASId s + 1,
                     g_tlases :=
                       AList.update (g_nextTLASId s) (h\<lparr>tlas_id := g_nextTLASId s\<rparr>)
                         (g_tlases s) \<rparr>))"
  using assms by (simp add: js_createTLAS_def Let_def)


lemma createBLAS_not_marshaled:
  "marshalBLASGeometries e s args = None \<Longrightarrow>
   js_createBLAS B e args s = (newNull e, after_support_query B s)"
  by (simp add: js_createBLAS_def after_support_query_def split: option.splits prod.splits)

lemma createTLAS_not_marshaled:
  "marshalTLASInstances e s args = None \<Longrightarrow>
   js_createTLAS B e args s = (newNull e, after_support_query B s)"
  by (simp add: js_createTLAS_def after_support_query_def split: option.splits prod.splits)

subsection \<open>Allocation of ids\<close>

lemma of_nat_u32_less:
  assumes "i < j" and "j < 2 ^ 32"
  shows "(of_nat i :: 32 word) < of_nat j"
proof -
  have "unat (of_nat i :: 32 word) = i" "unat (of_nat j :: 32 word) = j"
    using assms by (simp_all add: unat_of_nat)
  with assms(1) show ?thesis by (simp add: word_less_nat_alt)
qed

lemma of_nat_u32_nonzero:
  assumes "0 < j" and "j < 2 ^ 32"
  shows "(of_nat j :: 32 word) \<noteq> 0"
  using of_nat_u32_less [OF assms] by auto


lemma shifted_ids: "map (\<lambda>j. (1 :: 32 word) + of_nat j) [0..<n] = map of_nat [1..<Suc n]"
proof -
  have "map (of_nat :: nat \<Rightarrow> 32 word) [1..<Suc n] = map of_nat (map Suc [0..<n])"
    by (simp only: map_Suc_upt One_nat_def)
  then show ?thesis by (simp add: comp_def add.commute)
qed

lemma initialized_next_id: "next_id k (initialized created) = 1"
  by (cases k) (simp_all add: initialized_def initializeRTBindings_def static_init_def)

lemma initialized_registered: "registered_ids k (initialized created) = []"
  by (cases k) (simp_all add: initialized_def initializeRTBindings_def static_init_def)


lemma allocated_ids_from_one:
  "allocated_ids k B e cs (initialized created) =
     map of_nat [1..<Suc (length (allocated_ids k B e cs (initialized created)))]"
  using allocated_ids_consecutive [of k B e cs "initialized created"]
  by (simp only: initialized_next_id shifted_ids)

lemma triangle_marshaled:
  "marshalGeometryDesc sample_engine [triangle_options] =
     Some \<lparr> vertices = Some [0, 0, 0, f32_one, 0, 0, 0, f32_one, 0],
            vertexCount = 3, vertexStride = 12, vertexOffset = 0,
            indices = Some [0, 1, 2], indexCount = 3 \<rparr>"
  by (simp add: marshalGeometryDesc_def extractFloat32Array_def extractUint32Array_def
        sample_engine_def triangle_options_def triangle_vertices_def)

lemma sample_createGeometry:
  assumes "g_rtBackend s = Some calls"
  shows "snd (js_createGeometry RecordingBackend sample_engine [triangle_options] s) =
           s\<lparr> g_rtBackend :=
                Some (calls @
                  [CreateGeometryCall
                     \<lparr> vertices = Some [0, 0, 0, f32_one, 0, 0, 0, f32_one, 0],
                       vertexCount = 3, vertexStride = 12, vertexOffset = 0,
                       indices = Some [0, 1, 2], indexCount = 3 \<rparr>]),
              g_nextGeometryId := g_nextGeometryId s + 1,
              g_geometries :=
                AList.update (g_nextGeometryId s)
                  \<lparr>geom_handle = Suc (length calls), geom_id = g_nextGeometryId s\<rparr>
                  (g_geometries s) \<rparr>"
  using assms
  by (simp add: js_createGeometry_def triangle_marshaled RecordingBackend_def Let_def)

lemma repeated_creation:
  "g_rtBackend s = Some calls \<Longrightarrow>
   length (allocated_ids Geometry RecordingBackend sample_engine
             (replicate n (CreateGeometry [triangle_options])) s) = n \<and>
   g_rtBackend (run_calls RecordingBackend sample_engine
                  (replicate n (CreateGeometry [triangle_options])) s) \<noteq> None"
proof (induction n arbitrary: s calls)
  case 0
  then show ?case by simp
next
  case (Suc n)
  let ?s' = "snd (js_createGeometry RecordingBackend sample_engine [triangle_options] s)"
  have s': "?s' = s\<lparr> g_rtBackend :=
                Some (calls @
                  [CreateGeometryCall
                     \<lparr> vertices = Some [0, 0, 0, f32_one, 0, 0, 0, f32_one, 0],
                       vertexCount = 3, vertexStride = 12, vertexOffset = 0,
                       indices = Some [0, 1, 2], indexCount = 3 \<rparr>]),
              g_nextGeometryId := g_nextGeometryId s + 1,
              g_geometries :=
                AList.update (g_nextGeometryId s)
                  \<lparr>geom_handle = Suc (length calls), geom_id = g_nextGeometryId s\<rparr>
                  (g_geometries s) \<rparr>"
    by (rule sample_createGeometry [OF Suc.prems])
  then have b: "g_rtBackend ?s' = Some (calls @
                  [CreateGeometryCall
                     \<lparr> vertices = Some [0, 0, 0, f32_one, 0, 0, 0, f32_one, 0],
                       vertexCount = 3, vertexStride = 12, vertexOffset = 0,
                       indices = Some [0, 1, 2], indexCount = 3 \<rparr>])"
    and n: "g_nextGeometryId ?s' \<noteq> g_nextGeometryId s"
    by simp_all
  from Suc.IH [OF b] n show ?case
    by (simp add: Let_def)
qed



lemma run_calls_append:
  "run_calls B e (xs @ ys) s = run_calls B e ys (run_calls B e xs s)"
  by (induction xs arbitrary: s) simp_all










lemma zero_not_registered:
  assumes "length (allocated_ids k B e cs (initialized created)) < 2 ^ 32"
  shows "0 \<notin> set (registered_ids k (run_calls B e cs (initialized created)))"
proof
  let ?ids = "allocated_ids k B e cs (initialized created)"
  assume "0 \<in> set (registered_ids k (run_calls B e cs (initialized created)))"
  with run_calls_registered [of k B e cs "initialized created"]
  have "0 \<in> set ?ids"
    by (auto simp add: initialized_registered)
  then have "0 \<in> set (map (of_nat :: nat \<Rightarrow> 32 word) [1..<Suc (length ?ids)])"
    using allocated_ids_from_one [of k B e cs created] by simp
  then obtain j where j: "j \<in> set [1..<Suc (length ?ids)]" and z: "(of_nat j :: 32 word) = 0"
    by (auto simp del: upt_Suc)
  from j have "0 < j" and "j < Suc (length ?ids)"
    by (simp_all del: upt_Suc)
  with assms z of_nat_u32_nonzero [of j] show False
    by simp
qed

lemma collectGeometryHandles_fails:
  "i \<in> set idxs \<Longrightarrow>
   map_of (g_geometries s) (getGeometryId e (getPropertyIndex e arr (of_nat i))) = None \<Longrightarrow>
   collectGeometryHandles e s arr idxs acc = None"
  by (induction idxs arbitrary: acc) (auto simp add: Let_def split: option.splits)

lemma marshalBLASGeometries_unresolved:
  assumes "i < double_to_size e (toNumber e (getProperty e arr ''length''))"
    and "map_of (g_geometries s) (getGeometryId e (getPropertyIndex e arr (of_nat i))) = None"
  shows "marshalBLASGeometries e s (arr # rest) = None"
proof -
  let ?count = "double_to_size e (toNumber e (getProperty e arr ''length''))"
  have "collectGeometryHandles e s arr [0..<?count] [] = None"
    using assms by (intro collectGeometryHandles_fails [of i]) simp_all
  then show ?thesis
    by (simp add: marshalBLASGeometries_def Let_def)
qed

lemma marshalTLASInstances_unresolved:
  assumes "i < double_to_size e (toNumber e (getProperty e arr ''length''))"
    and "map_of (g_blases s)
           (getBLASId e (getProperty e (getPropertyIndex e arr (of_nat i)) ''blas'')) = None"
  shows "marshalTLASInstances e s (arr # rest) = None"
proof -
  let ?count = "double_to_size e (toNumber e (getProperty e arr ''length''))"
  have "collectInstances e s arr [0..<?count] [] = None"
    using assms by (intro collectInstances_fails [of i]) (simp_all add: marshalInstance_None_iff)
  then show ?thesis
    by (simp add: marshalTLASInstances_def Let_def)
qed

lemma undefined_id_is_zero:
  assumes "isUndefined e (getProperty e obj ''_id'')"
  shows "getGeometryId e obj = 0" and "getBLASId e obj = 0" and "getTLASId e obj = 0"
  using assms by (simp_all add: getGeometryId_def getBLASId_def getTLASId_def)

lemma not_key_lookup: "k \<notin> set (map fst al) \<Longrightarrow> map_of al k = None"
  by (simp add: map_of_eq_None_iff)

section \<open>The claims\<close>

subsection \<open>Creation without a supporting backend\<close>

text \<open>
  Claim C1.  If the backend is absent, or its \<^verbatim>\<open>isSupported()\<close> returns false, then for all
  arguments \<^verbatim>\<open>createGeometry\<close>, \<^verbatim>\<open>createBLAS\<close> and \<^verbatim>\<open>createTLAS\<close> return \<^verbatim>\<open>null\<close>
  and leave the globals as the support query left them: the three tables gain no entry
  (they and the three allocators are as before the call).
\<close>

theorem creation_requires_supported_backend:
  assumes "case g_rtBackend s of None \<Rightarrow> True | Some b \<Rightarrow> \<not> fst (isSupported B b)"
  shows "js_createGeometry B e args s = (newNull e, after_support_query B s) \<and>
         js_createBLAS B e args s = (newNull e, after_support_query B s) \<and>
         js_createTLAS B e args s = (newNull e, after_support_query B s) \<and>
         g_geometries (after_support_query B s) = g_geometries s \<and>
         g_blases (after_support_query B s) = g_blases s \<and>
         g_tlases (after_support_query B s) = g_tlases s \<and>
         g_nextGeometryId (after_support_query B s) = g_nextGeometryId s \<and>
         g_nextBLASId (after_support_query B s) = g_nextBLASId s \<and>
         g_nextTLASId (after_support_query B s) = g_nextTLASId s"
  using assms
  by (auto simp add: js_createGeometry_def js_createBLAS_def js_createTLAS_def
        after_support_query_def split: option.splits prod.splits)

theorem creation_requires_supported_backend_witness:
  "(case g_rtBackend (initialized ()) of None \<Rightarrow> True
    | Some b \<Rightarrow> \<not> fst (isSupported StubRTBackend b)) \<and>
   js_createGeometry StubRTBackend sample_engine [triangle_options] (initialized ()) =
     (JSNull, initialized ()) \<and>
   js_createBLAS StubRTBackend sample_engine [JSArray [geometry_object 1]] (initialized ()) =
     (JSNull, initialized ()) \<and>
   g_geometries (initialized () :: unit rt_globals) = [] \<and>
   g_rtBackend (static_init :: backend_call list rt_globals) = None \<and>
   js_createTLAS RecordingBackend sample_engine [JSArray [masked_instance]] static_init =
     (JSNull, static_init)"
proof -
  have absent: "case g_rtBackend (static_init :: backend_call list rt_globals) of
                  None \<Rightarrow> True | Some b \<Rightarrow> \<not> fst (isSupported RecordingBackend b)"
    "g_rtBackend (static_init :: backend_call list rt_globals) = None"
    "after_support_query RecordingBackend static_init = static_init"
    by (simp_all add: static_init_def after_support_query_def)
  have hyp: "case g_rtBackend (initialized ()) of None \<Rightarrow> True
             | Some b \<Rightarrow> \<not> fst (isSupported StubRTBackend b)"
    by (simp add: sample_defs)
  have same: "after_support_query StubRTBackend (initialized ()) = initialized ()"
    by (simp add: after_support_query_def sample_defs)
  have nul: "newNull sample_engine = JSNull"
    by (simp add: sample_engine_def)
  have tbl: "g_geometries (initialized () :: unit rt_globals) = []"
    by (simp add: sample_defs)
  from creation_requires_supported_backend [OF hyp, of sample_engine "[triangle_options]"]
       creation_requires_supported_backend
         [OF hyp, of sample_engine "[JSArray [geometry_object 1]]"]
       creation_requires_supported_backend
         [OF absent(1), of sample_engine "[JSArray [masked_instance]]"]
       same nul tbl hyp absent(2,3)
  show ?thesis by simp
qed

subsection \<open>An instance that refers to an unknown BLAS\<close>

text \<open>
  Claim C2.  If some instance of the array given to \<^verbatim>\<open>createTLAS\<close> has a \<^verbatim>\<open>blas\<close> field
  whose id is in no entry of the BLAS table (destroyed, never issued or missing), the call
  returns \<^verbatim>\<open>null\<close> and the globals are those the support query leaves: the backend's
  \<^verbatim>\<open>createTLAS\<close> is not called and the TLAS table and allocator are unchanged.
\<close>

theorem createTLAS_unknown_blas_fails:
  assumes "i < double_to_size e (toNumber e (getProperty e instancesArr ''length''))"
    and "map_of (g_blases s)
           (getBLASId e (getProperty e (getPropertyIndex e instancesArr (of_nat i)) ''blas''))
         = None"
  shows "js_createTLAS B e (instancesArr # rest) s = (newNull e, after_support_query B s) \<and>
         g_tlases (after_support_query B s) = g_tlases s \<and>
         g_nextTLASId (after_support_query B s) = g_nextTLASId s"
  using createTLAS_not_marshaled
          [OF marshalTLASInstances_unresolved [OF assms], where B = B and rest1 = rest]
  by (simp add: after_support_query_def)

theorem createTLAS_unknown_blas_fails_witness:
  "(0::nat) < double_to_size sample_engine
      (toNumber sample_engine (getProperty sample_engine (JSArray [masked_instance]) ''length'')) \<and>
   map_of (g_blases destroyed_blas_state)
     (getBLASId sample_engine
        (getProperty sample_engine
           (getPropertyIndex sample_engine (JSArray [masked_instance]) (of_nat 0)) ''blas'')) = None \<and>
   js_createTLAS RecordingBackend sample_engine [JSArray [masked_instance]] destroyed_blas_state =
     (JSNull, destroyed_blas_state)"
proof -
  have len: "(0::nat) < double_to_size sample_engine
      (toNumber sample_engine (getProperty sample_engine (JSArray [masked_instance]) ''length''))"
    by (simp add: sample_engine_def)
  have gone: "map_of (g_blases destroyed_blas_state)
     (getBLASId sample_engine
        (getProperty sample_engine
           (getPropertyIndex sample_engine (JSArray [masked_instance]) (of_nat 0)) ''blas'')) = None"
    by (simp add: destroyed_blas_state_eq)
  have same: "after_support_query RecordingBackend destroyed_blas_state = destroyed_blas_state"
    by (simp add: after_support_query_def destroyed_blas_state_eq RecordingBackend_def)
  have nul: "newNull sample_engine = JSNull"
    by (simp add: sample_engine_def)
  from createTLAS_unknown_blas_fails [OF len gone, of RecordingBackend "[]"] len gone same nul
  show ?thesis by simp
qed

subsection \<open>Defaults of the instance fields\<close>

text \<open>
  Claim C3 (amended).  Take a call of \<^verbatim>\<open>createTLAS\<close> or \<^verbatim>\<open>updateTLAS\<close> that gets past
  its checks: the backend supports ray tracing, the instances argument is an array and the
  \<^verbatim>\<open>blas\<close> of every instance resolves to a registered BLAS (for \<^verbatim>\<open>createTLAS\<close> the array
  is moreover not empty, for \<^verbatim>\<open>updateTLAS\<close> the first argument resolves to a registered
  TLAS).  Then the binding calls the backend's \<^verbatim>\<open>createTLAS\<close>, respectively
  \<^verbatim>\<open>updateTLAS\<close>, with a list that has one instance per array element, and in each
  instance \<^verbatim>\<open>instanceId\<close> is \<open>0\<close> when the field of the script object is undefined and
  the converted value of the field otherwise, while \<^verbatim>\<open>mask\<close> is \<^verbatim>\<open>0xFF\<close> and \<^verbatim>\<open>flags\<close>
  is \<open>0\<close> whatever the script object carries: its \<^verbatim>\<open>mask\<close> and \<^verbatim>\<open>flags\<close> fields are
  not read.
\<close>

theorem instance_id_read_mask_flags_fixed:
  assumes "g_rtBackend s = Some b" and "isSupported B b = (True, b1)"
    and "isArray e instancesArr"
    and "count = double_to_size e (toNumber e (getProperty e instancesArr ''length''))"
    and "\<forall>i<count. map_of (g_blases s)
           (getBLASId e (getProperty e (getPropertyIndex e instancesArr (of_nat i)) ''blas''))
         \<noteq> None"
  shows "\<exists>instances.
           length instances = count \<and>
           (\<forall>i<count.
              instanceId (instances ! i) =
                (let instanceIdVal =
                       getProperty e (getPropertyIndex e instancesArr (of_nat i)) ''instanceId''
                 in if isUndefined e instanceIdVal then 0
                    else double_to_uint32 e (toNumber e instanceIdVal)) \<and>
              mask_field (instances ! i) = 0xFF \<and>
              flags (instances ! i) = 0) \<and>
           (count \<noteq> 0 \<longrightarrow>
              js_createTLAS B e (instancesArr # rest) s =
                (case createTLAS B instances b1 of (handle, b2) \<Rightarrow>
                   if tlas_handle handle = nullptr
                   then (newNull e, s\<lparr>g_rtBackend := Some b2\<rparr>)
                   else (createTLASJS e (g_nextTLASId s),
                         s\<lparr> g_rtBackend := Some b2,
                            g_nextTLASId := g_nextTLASId s + 1,
                            g_tlases :=
                              AList.update (g_nextTLASId s) (handle\<lparr>tlas_id := g_nextTLASId s\<rparr>)
                                (g_tlases s) \<rparr>))) \<and>
           (map_of (g_tlases s) (getTLASId e tlasObj) = Some tlas \<longrightarrow>
              js_updateTLAS B e (tlasObj # instancesArr # rest) s =
                (newUndefined e, s\<lparr>g_rtBackend := Some (updateTLAS B tlas instances b1)\<rparr>))"
proof -
  from tlas_bindings_pass_loop_result [OF assms, of rest tlasObj tlas]
  obtain instances where len: "length instances = count"
    and each: "\<forall>i<count. marshalInstance e s (getPropertyIndex e instancesArr (of_nat i))
                 = Some (instances ! i)"
    and calls:
      "count \<noteq> 0 \<longrightarrow>
         js_createTLAS B e (instancesArr # rest) s =
           (case createTLAS B instances b1 of (handle, b2) \<Rightarrow>
              if tlas_handle handle = nullptr
              then (newNull e, s\<lparr>g_rtBackend := Some b2\<rparr>)
              else (createTLASJS e (g_nextTLASId s),
                    s\<lparr> g_rtBackend := Some b2,
                       g_nextTLASId := g_nextTLASId s + 1,
                       g_tlases :=
                         AList.update (g_nextTLASId s) (handle\<lparr>tlas_id := g_nextTLASId s\<rparr>)
                           (g_tlases s) \<rparr>))"
      "map_of (g_tlases s) (getTLASId e tlasObj) = Some tlas \<longrightarrow>
         js_updateTLAS B e (tlasObj # instancesArr # rest) s =
           (newUndefined e, s\<lparr>g_rtBackend := Some (updateTLAS B tlas instances b1)\<rparr>)"
    by blast
  have fields: "\<forall>i<count.
              instanceId (instances ! i) =
                (let instanceIdVal =
                       getProperty e (getPropertyIndex e instancesArr (of_nat i)) ''instanceId''
                 in if isUndefined e instanceIdVal then 0
                    else double_to_uint32 e (toNumber e instanceIdVal)) \<and>
              mask_field (instances ! i) = 0xFF \<and>
              flags (instances ! i) = 0"
  proof (intro allI impI)
    fix i
    assume "i < count"
    with each have m: "marshalInstance e s (getPropertyIndex e instancesArr (of_nat i))
                         = Some (instances ! i)"
      by simp
    from marshalInstance_fields(1,2,3) [OF m]
    show "instanceId (instances ! i) =
                (let instanceIdVal =
                       getProperty e (getPropertyIndex e instancesArr (of_nat i)) ''instanceId''
                 in if isUndefined e instanceIdVal then 0
                    else double_to_uint32 e (toNumber e instanceIdVal)) \<and>
              mask_field (instances ! i) = 0xFF \<and>
              flags (instances ! i) = 0"
      by (simp add: Let_def)
  qed
  from len fields calls show ?thesis by blast
qed

theorem instance_id_read_mask_flags_fixed_witness:
  "(\<exists>instances.
      g_rtBackend (snd (js_createTLAS RecordingBackend sample_engine [two_instances]
                          one_blas_state)) =
        Some (the (g_rtBackend one_blas_state) @ [CreateTLASCall instances]) \<and>
      length instances = 2 \<and>
      instanceId (instances ! 0) = 7 \<and> instanceId (instances ! 1) = 0 \<and>
      mask_field (instances ! 0) = 0xFF \<and> mask_field (instances ! 1) = 0xFF \<and>
      flags (instances ! 0) = 0 \<and> flags (instances ! 1) = 0) \<and>
   (\<exists>instances.
      g_rtBackend (snd (js_updateTLAS RecordingBackend sample_engine
                          [tlas_object 1, two_instances] one_tlas_state)) =
        Some (the (g_rtBackend one_tlas_state) @
                [UpdateTLASCall \<lparr>tlas_handle = 3, tlas_id = 1\<rparr> instances]) \<and>
      length instances = 2 \<and>
      instanceId (instances ! 0) = 7 \<and> instanceId (instances ! 1) = 0 \<and>
      mask_field (instances ! 0) = 0xFF \<and> mask_field (instances ! 1) = 0xFF \<and>
      flags (instances ! 0) = 0 \<and> flags (instances ! 1) = 0)"
proof
  let ?E = sample_engine
  have count: "(2::nat) = double_to_size ?E (toNumber ?E (getProperty ?E two_instances ''length''))"
    by (simp add: two_instances_facts)
  have res1: "\<forall>i<2. map_of (g_blases one_blas_state)
           (getBLASId ?E (getProperty ?E (getPropertyIndex ?E two_instances (of_nat i)) ''blas''))
         \<noteq> None"
    by (simp add: less_two_cases two_instances_facts sample_states_facts)
  have res2: "\<forall>i<2. map_of (g_blases one_tlas_state)
           (getBLASId ?E (getProperty ?E (getPropertyIndex ?E two_instances (of_nat i)) ''blas''))
         \<noteq> None"
    by (simp add: less_two_cases two_instances_facts sample_states_facts)
  from instance_id_read_mask_flags_fixed
         [OF sample_states_facts(1) recording_backend_facts(1) two_instances_facts(1) count res1,
          of "[]" JSNull "\<lparr>tlas_handle = nullptr, tlas_id = 0\<rparr>"]
  obtain instances where len: "length instances = 2"
    and fields: "\<forall>i<2.
              instanceId (instances ! i) =
                (let instanceIdVal =
                       getProperty ?E (getPropertyIndex ?E two_instances (of_nat i)) ''instanceId''
                 in if isUndefined ?E instanceIdVal then 0
                    else double_to_uint32 ?E (toNumber ?E instanceIdVal)) \<and>
              mask_field (instances ! i) = 0xFF \<and>
              flags (instances ! i) = 0"
    and call: "js_createTLAS RecordingBackend ?E [two_instances] one_blas_state =
                (case createTLAS RecordingBackend instances (the (g_rtBackend one_blas_state)) of
                   (handle, b2) \<Rightarrow>
                   if tlas_handle handle = nullptr
                   then (newNull ?E, one_blas_state\<lparr>g_rtBackend := Some b2\<rparr>)
                   else (createTLASJS ?E (g_nextTLASId one_blas_state),
                         one_blas_state\<lparr> g_rtBackend := Some b2,
                            g_nextTLASId := g_nextTLASId one_blas_state + 1,
                            g_tlases :=
                              AList.update (g_nextTLASId one_blas_state)
                                (handle\<lparr>tlas_id := g_nextTLASId one_blas_state\<rparr>)
                                (g_tlases one_blas_state) \<rparr>))"
    by auto
  have passed: "g_rtBackend (snd (js_createTLAS RecordingBackend ?E [two_instances]
                                    one_blas_state)) =
        Some (the (g_rtBackend one_blas_state) @ [CreateTLASCall instances])"
    by (simp add: call recording_backend_facts)
  from fields have vals:
    "instanceId (instances ! 0) = 7" "instanceId (instances ! 1) = 0"
    "mask_field (instances ! 0) = 0xFF" "mask_field (instances ! 1) = 0xFF"
    "flags (instances ! 0) = 0" "flags (instances ! 1) = 0"
    by (simp_all add: less_two_cases two_instances_facts sample_engine_numbers)
  from passed len vals
  show "\<exists>instances.
      g_rtBackend (snd (js_createTLAS RecordingBackend sample_engine [two_instances]
                          one_blas_state)) =
        Some (the (g_rtBackend one_blas_state) @ [CreateTLASCall instances]) \<and>
      length instances = 2 \<and>
      instanceId (instances ! 0) = 7 \<and> instanceId (instances ! 1) = 0 \<and>
      mask_field (instances ! 0) = 0xFF \<and> mask_field (instances ! 1) = 0xFF \<and>
      flags (instances ! 0) = 0 \<and> flags (instances ! 1) = 0"
    by blast
  from instance_id_read_mask_flags_fixed
         [OF sample_states_facts(2) recording_backend_facts(1) two_instances_facts(1) count res2,
          of "[]" "tlas_object 1" "\<lparr>tlas_handle = 3, tlas_id = 1\<rparr>"]
       sample_states_facts(5)
  obtain updated where len': "length updated = 2"
    and fields': "\<forall>i<2.
              instanceId (updated ! i) =
                (let instanceIdVal =
                       getProperty ?E (getPropertyIndex ?E two_instances (of_nat i)) ''instanceId''
                 in if isUndefined ?E instanceIdVal then 0
                    else double_to_uint32 ?E (toNumber ?E instanceIdVal)) \<and>
              mask_field (updated ! i) = 0xFF \<and>
              flags (updated ! i) = 0"
    and call': "js_updateTLAS RecordingBackend ?E [tlas_object 1, two_instances] one_tlas_state =
                (newUndefined ?E,
                 one_tlas_state\<lparr>g_rtBackend :=
                   Some (updateTLAS RecordingBackend \<lparr>tlas_handle = 3, tlas_id = 1\<rparr> updated
                           (the (g_rtBackend one_tlas_state)))\<rparr>)"
    by auto
  have passed': "g_rtBackend (snd (js_updateTLAS RecordingBackend ?E
                          [tlas_object 1, two_instances] one_tlas_state)) =
        Some (the (g_rtBackend one_tlas_state) @
                [UpdateTLASCall \<lparr>tlas_handle = 3, tlas_id = 1\<rparr> updated])"
    by (simp add: call' recording_backend_facts)
  from fields' have vals':
    "instanceId (updated ! 0) = 7" "instanceId (updated ! 1) = 0"
    "mask_field (updated ! 0) = 0xFF" "mask_field (updated ! 1) = 0xFF"
    "flags (updated ! 0) = 0" "flags (updated ! 1) = 0"
    by (simp_all add: less_two_cases two_instances_facts sample_engine_numbers)
  from passed' len' vals'
  show "\<exists>instances.
      g_rtBackend (snd (js_updateTLAS RecordingBackend sample_engine
                          [tlas_object 1, two_instances] one_tlas_state)) =
        Some (the (g_rtBackend one_tlas_state) @
                [UpdateTLASCall \<lparr>tlas_handle = 3, tlas_id = 1\<rparr> instances]) \<and>
      length instances = 2 \<and>
      instanceId (instances ! 0) = 7 \<and> instanceId (instances ! 1) = 0 \<and>
      mask_field (instances ! 0) = 0xFF \<and> mask_field (instances ! 1) = 0xFF \<and>
      flags (instances ! 0) = 0 \<and> flags (instances ! 1) = 0"
    by blast
qed

text \<open>
  The claim as written, that a present \<^verbatim>\<open>mask\<close> or \<^verbatim>\<open>flags\<close> value is used, fails:
  two instances with \<^verbatim>\<open>mask: 15, flags: 1\<close> reach the backend with mask \<^verbatim>\<open>0xFF\<close> and
  flags 0, from \<^verbatim>\<open>createTLAS\<close> and from \<^verbatim>\<open>updateTLAS\<close>.
\<close>

theorem instance_mask_flags_counterexample:
  "\<not> isUndefined sample_engine (getProperty sample_engine masked_instance ''mask'') \<and>
   double_to_uint32 sample_engine
     (toNumber sample_engine (getProperty sample_engine masked_instance ''mask'')) = 15 \<and>
   \<not> isUndefined sample_engine (getProperty sample_engine masked_instance ''flags'') \<and>
   double_to_uint32 sample_engine
     (toNumber sample_engine (getProperty sample_engine masked_instance ''flags'')) = 1 \<and>
   g_rtBackend
     (snd (js_createTLAS RecordingBackend sample_engine
             [JSArray [masked_instance, masked_instance]] one_blas_state)) =
     Some (the (g_rtBackend one_blas_state) @
       [CreateTLASCall
          [\<lparr> blas = \<lparr>blas_handle = 2, blas_id = 1\<rparr>, transform = default_transform,
              instanceId = 7, mask_field = 0xFF, flags = 0 \<rparr>,
           \<lparr> blas = \<lparr>blas_handle = 2, blas_id = 1\<rparr>, transform = default_transform,
              instanceId = 7, mask_field = 0xFF, flags = 0 \<rparr>]]) \<and>
   g_rtBackend
     (snd (js_updateTLAS RecordingBackend sample_engine
             [tlas_object 1, JSArray [masked_instance, masked_instance]] one_tlas_state)) =
     Some (the (g_rtBackend one_tlas_state) @
       [UpdateTLASCall \<lparr>tlas_handle = 3, tlas_id = 1\<rparr>
          [\<lparr> blas = \<lparr>blas_handle = 2, blas_id = 1\<rparr>, transform = default_transform,
              instanceId = 7, mask_field = 0xFF, flags = 0 \<rparr>,
           \<lparr> blas = \<lparr>blas_handle = 2, blas_id = 1\<rparr>, transform = default_transform,
              instanceId = 7, mask_field = 0xFF, flags = 0 \<rparr>]])"
proof -
  have idx: "[0..<2] = [0, Suc 0]"
    by (simp add: numeral_2_eq_2)
  show ?thesis
    by (simp add: idx one_blas_state_eq one_tlas_state_eq masked_instance_def blas_object_def
          tlas_object_def js_createTLAS_def js_updateTLAS_def marshalTLASInstances_def
          marshalInstance_def getBLASId_def getTLASId_def extractFloat32Array_def
          sample_engine_def RecordingBackend_def)
qed

subsection \<open>Ids are allocated in increasing order\<close>




subsection \<open>Only successful creations are registered\<close>

text \<open>
  Claim C5.  A creation call adds an entry to its table if and only if the backend
  returned a handle whose native pointer is not null.  Every creation call either leaves
  its table and allocator unchanged or stores a handle with a non-null pointer under the
  allocated id.  When the arguments do not marshal the backend is not called and the table
  is unchanged; when the backend is called and returns a null pointer the table and the
  allocator are unchanged; when it returns a non-null pointer the handle is stored under
  the allocated id.  Hence no table reached
  from the initialised globals by any sequence of calls, nor the tables after teardown,
  hold a handle with a null native pointer.
\<close>

theorem registered_iff_backend_succeeded:
  "no_null_handles (run_calls B e cs (initialized created)) \<and>
   no_null_handles (cleanupRTBindings B s) \<and>
   ((g_nextGeometryId (snd (js_createGeometry B e args s)) = g_nextGeometryId s \<and>
     g_geometries (snd (js_createGeometry B e args s)) = g_geometries s) \<or>
    (\<exists>h. geom_handle h \<noteq> nullptr \<and>
       g_nextGeometryId (snd (js_createGeometry B e args s)) = g_nextGeometryId s + 1 \<and>
       g_geometries (snd (js_createGeometry B e args s)) =
         AList.update (g_nextGeometryId s) (h\<lparr>geom_id := g_nextGeometryId s\<rparr>)
           (g_geometries s))) \<and>
   ((g_nextBLASId (snd (js_createBLAS B e args s)) = g_nextBLASId s \<and>
     g_blases (snd (js_createBLAS B e args s)) = g_blases s) \<or>
    (\<exists>h. blas_handle h \<noteq> nullptr \<and>
       g_nextBLASId (snd (js_createBLAS B e args s)) = g_nextBLASId s + 1 \<and>
       g_blases (snd (js_createBLAS B e args s)) =
         AList.update (g_nextBLASId s) (h\<lparr>blas_id := g_nextBLASId s\<rparr>) (g_blases s))) \<and>
   ((g_nextTLASId (snd (js_createTLAS B e args s)) = g_nextTLASId s \<and>
     g_tlases (snd (js_createTLAS B e args s)) = g_tlases s) \<or>
    (\<exists>h. tlas_handle h \<noteq> nullptr \<and>
       g_nextTLASId (snd (js_createTLAS B e args s)) = g_nextTLASId s + 1 \<and>
       g_tlases (snd (js_createTLAS B e args s)) =
         AList.update (g_nextTLASId s) (h\<lparr>tlas_id := g_nextTLASId s\<rparr>) (g_tlases s))) \<and>
   (marshalGeometryDesc e args = None \<longrightarrow>
      g_geometries (snd (js_createGeometry B e args s)) = g_geometries s) \<and>
   (marshalBLASGeometries e s args = None \<longrightarrow>
      g_blases (snd (js_createBLAS B e args s)) = g_blases s) \<and>
   (marshalTLASInstances e s args = None \<longrightarrow>
      g_tlases (snd (js_createTLAS B e args s)) = g_tlases s) \<and>
   (g_rtBackend s = Some b \<and> isSupported B b = (True, b1) \<and>
    marshalGeometryDesc e args = Some desc \<and> createGeometry B desc b1 = (gh, b2) \<longrightarrow>
      (let s' = snd (js_createGeometry B e args s)
       in if geom_handle gh = nullptr
          then g_geometries s' = g_geometries s \<and> g_nextGeometryId s' = g_nextGeometryId s
          else map_of (g_geometries s') (g_nextGeometryId s)
                 = Some (gh\<lparr>geom_id := g_nextGeometryId s\<rparr>))) \<and>
   (g_rtBackend s = Some b \<and> isSupported B b = (True, b1) \<and>
    marshalBLASGeometries e s args = Some handles \<and> createBLAS B handles b1 = (bh, b3) \<longrightarrow>
      (let s' = snd (js_createBLAS B e args s)
       in if blas_handle bh = nullptr
          then g_blases s' = g_blases s \<and> g_nextBLASId s' = g_nextBLASId s
          else map_of (g_blases s') (g_nextBLASId s)
                 = Some (bh\<lparr>blas_id := g_nextBLASId s\<rparr>))) \<and>
   (g_rtBackend s = Some b \<and> isSupported B b = (True, b1) \<and>
    marshalTLASInstances e s args = Some instances \<and> createTLAS B instances b1 = (th, b4) \<longrightarrow>
      (let s' = snd (js_createTLAS B e args s)
       in if tlas_handle th = nullptr
          then g_tlases s' = g_tlases s \<and> g_nextTLASId s' = g_nextTLASId s
          else map_of (g_tlases s') (g_nextTLASId s)
                 = Some (th\<lparr>tlas_id := g_nextTLASId s\<rparr>)))"
proof (intro conjI impI)
  show "no_null_handles (run_calls B e cs (initialized created))"
    by (rule run_calls_no_null [OF initialized_no_null])
  show "no_null_handles (cleanupRTBindings B s)"
    by (simp add: no_null_handles_def cleanupRTBindings_def)
  show "(g_nextGeometryId (snd (js_createGeometry B e args s)) = g_nextGeometryId s \<and>
     g_geometries (snd (js_createGeometry B e args s)) = g_geometries s) \<or>
    (\<exists>h. geom_handle h \<noteq> nullptr \<and>
       g_nextGeometryId (snd (js_createGeometry B e args s)) = g_nextGeometryId s + 1 \<and>
       g_geometries (snd (js_createGeometry B e args s)) =
         AList.update (g_nextGeometryId s) (h\<lparr>geom_id := g_nextGeometryId s\<rparr>)
           (g_geometries s))"
    by (rule createGeometry_own)
  show "(g_nextBLASId (snd (js_createBLAS B e args s)) = g_nextBLASId s \<and>
     g_blases (snd (js_createBLAS B e args s)) = g_blases s) \<or>
    (\<exists>h. blas_handle h \<noteq> nullptr \<and>
       g_nextBLASId (snd (js_createBLAS B e args s)) = g_nextBLASId s + 1 \<and>
       g_blases (snd (js_createBLAS B e args s)) =
         AList.update (g_nextBLASId s) (h\<lparr>blas_id := g_nextBLASId s\<rparr>) (g_blases s))"
    by (rule createBLAS_own)
  show "(g_nextTLASId (snd (js_createTLAS B e args s)) = g_nextTLASId s \<and>
     g_tlases (snd (js_createTLAS B e args s)) = g_tlases s) \<or>
    (\<exists>h. tlas_handle h \<noteq> nullptr \<and>
       g_nextTLASId (snd (js_createTLAS B e args s)) = g_nextTLASId s + 1 \<and>
       g_tlases (snd (js_createTLAS B e args s)) =
         AList.update (g_nextTLASId s) (h\<lparr>tlas_id := g_nextTLASId s\<rparr>) (g_tlases s))"
    by (rule createTLAS_own)
  show "g_geometries (snd (js_createGeometry B e args s)) = g_geometries s"
    if "marshalGeometryDesc e args = None"
    using that by (simp add: createGeometry_not_marshaled after_support_query_def)
  show "g_blases (snd (js_createBLAS B e args s)) = g_blases s"
    if "marshalBLASGeometries e s args = None"
    using that by (simp add: createBLAS_not_marshaled after_support_query_def)
  show "g_tlases (snd (js_createTLAS B e args s)) = g_tlases s"
    if "marshalTLASInstances e s args = None"
    using that by (simp add: createTLAS_not_marshaled after_support_query_def)
  show "let s' = snd (js_createGeometry B e args s)
       in if geom_handle gh = nullptr
          then g_geometries s' = g_geometries s \<and> g_nextGeometryId s' = g_nextGeometryId s
          else map_of (g_geometries s') (g_nextGeometryId s)
                 = Some (gh\<lparr>geom_id := g_nextGeometryId s\<rparr>)"
    if "g_rtBackend s = Some b \<and> isSupported B b = (True, b1) \<and>
        marshalGeometryDesc e args = Some desc \<and> createGeometry B desc b1 = (gh, b2)"
    using that by (simp add: createGeometry_backend_result [of s b B b1 e args desc gh b2]
                     update_conv')
  show "let s' = snd (js_createBLAS B e args s)
       in if blas_handle bh = nullptr
          then g_blases s' = g_blases s \<and> g_nextBLASId s' = g_nextBLASId s
          else map_of (g_blases s') (g_nextBLASId s)
                 = Some (bh\<lparr>blas_id := g_nextBLASId s\<rparr>)"
    if "g_rtBackend s = Some b \<and> isSupported B b = (True, b1) \<and>
        marshalBLASGeometries e s args = Some handles \<and> createBLAS B handles b1 = (bh, b3)"
    using that by (simp add: createBLAS_backend_result [of s b B b1 e args handles bh b3]
                     update_conv')
  show "let s' = snd (js_createTLAS B e args s)
       in if tlas_handle th = nullptr
          then g_tlases s' = g_tlases s \<and> g_nextTLASId s' = g_nextTLASId s
          else map_of (g_tlases s') (g_nextTLASId s)
                 = Some (th\<lparr>tlas_id := g_nextTLASId s\<rparr>)"
    if "g_rtBackend s = Some b \<and> isSupported B b = (True, b1) \<and>
        marshalTLASInstances e s args = Some instances \<and> createTLAS B instances b1 = (th, b4)"
    using that by (simp add: createTLAS_backend_result [of s b B b1 e args instances th b4]
                     update_conv')
qed

theorem registered_iff_backend_succeeded_witness:
  "no_null_handles one_blas_state \<and>
   map_of
     (g_geometries
        (snd (js_createGeometry RecordingBackend sample_engine [triangle_options]
                (initialized []))))
     1 = Some \<lparr>geom_handle = 1, geom_id = 1\<rparr> \<and>
   map_of
     (g_blases
        (snd (js_createBLAS RecordingBackend sample_engine [JSArray [geometry_object 1]]
                one_blas_state)))
     2 = Some \<lparr>blas_handle = 3, blas_id = 2\<rparr> \<and>
   map_of
     (g_tlases
        (snd (js_createTLAS RecordingBackend sample_engine [JSArray [masked_instance]]
                one_blas_state)))
     1 = Some \<lparr>tlas_handle = 3, tlas_id = 1\<rparr> \<and>
   createGeometry (StubRTBackend\<lparr>isSupported := \<lambda>b. (True, b)\<rparr>)
     \<lparr> vertices = Some [0, 0, 0, f32_one, 0, 0, 0, f32_one, 0],
       vertexCount = 3, vertexStride = 12, vertexOffset = 0,
       indices = Some [0, 1, 2], indexCount = 3 \<rparr> () =
     (\<lparr>geom_handle = nullptr, geom_id = 0\<rparr>, ()) \<and>
   g_geometries
     (snd (js_createGeometry (StubRTBackend\<lparr>isSupported := \<lambda>b. (True, b)\<rparr>) sample_engine
             [triangle_options] (initialized ()))) = [] \<and>
   marshalGeometryDesc sample_engine [] = None \<and>
   marshalBLASGeometries sample_engine one_blas_state [] = None \<and>
   marshalTLASInstances sample_engine one_blas_state [] = None \<and>
   g_geometries (snd (js_createGeometry RecordingBackend sample_engine [] one_blas_state)) =
     g_geometries one_blas_state \<and>
   g_blases (snd (js_createBLAS RecordingBackend sample_engine [] one_blas_state)) =
     g_blases one_blas_state \<and>
   g_tlases (snd (js_createTLAS RecordingBackend sample_engine [] one_blas_state)) =
     g_tlases one_blas_state"
proof -
  let ?desc = "\<lparr> vertices = Some [0, 0, 0, f32_one, 0, 0, 0, f32_one, 0],
                 vertexCount = 3, vertexStride = 12, vertexOffset = 0,
                 indices = Some [0, 1, 2], indexCount = 3 \<rparr>"
  let ?inst = "\<lparr> blas = \<lparr>blas_handle = 2, blas_id = 1\<rparr>, transform = default_transform,
                 instanceId = 7, mask_field = 0xFF, flags = 0 \<rparr>"
  let ?failing = "StubRTBackend\<lparr>isSupported := \<lambda>b. (True, b)\<rparr>"
  let ?log = "[CreateGeometryCall ?desc, CreateBLASCall [\<lparr>geom_handle = 1, geom_id = 1\<rparr>]]"
  have m: "marshalGeometryDesc sample_engine [triangle_options] = Some ?desc"
    by (rule triangle_marshaled)
  have mb: "marshalBLASGeometries sample_engine one_blas_state [JSArray [geometry_object 1]] =
              Some [\<lparr>geom_handle = 1, geom_id = 1\<rparr>]"
    by (simp add: marshalBLASGeometries_def getGeometryId_def one_blas_state_eq
          sample_engine_def geometry_object_def)
  have mt: "marshalTLASInstances sample_engine one_blas_state [JSArray [masked_instance]] =
              Some [?inst]"
    by (simp add: marshalTLASInstances_def marshalInstance_def getBLASId_def
          extractFloat32Array_def one_blas_state_eq sample_engine_def masked_instance_def
          blas_object_def)
  have none: "marshalGeometryDesc sample_engine [] = None"
    "marshalBLASGeometries sample_engine one_blas_state [] = None"
    "marshalTLASInstances sample_engine one_blas_state [] = None"
    by (simp_all add: marshalGeometryDesc_def marshalBLASGeometries_def marshalTLASInstances_def)
  have b: "g_rtBackend (initialized [] :: backend_call list rt_globals) = Some []"
    "g_rtBackend (initialized () :: unit rt_globals) = Some ()"
    "g_nextGeometryId (initialized [] :: backend_call list rt_globals) = 1"
    "g_geometries (initialized () :: unit rt_globals) = []"
    by (simp_all add: initialized_def initializeRTBindings_def static_init_def)
  have o: "g_rtBackend one_blas_state = Some ?log" "g_nextBLASId one_blas_state = 2"
    "g_nextTLASId one_blas_state = 1"
    by (simp_all add: one_blas_state_eq)
  have q: "isSupported RecordingBackend [] = (True, [])"
    "createGeometry RecordingBackend ?desc [] =
       (\<lparr>geom_handle = 1, geom_id = 0\<rparr>, [CreateGeometryCall ?desc])"
    "isSupported RecordingBackend ?log = (True, ?log)"
    "createBLAS RecordingBackend [\<lparr>geom_handle = 1, geom_id = 1\<rparr>] ?log =
       (\<lparr>blas_handle = 3, blas_id = 0\<rparr>,
        ?log @ [CreateBLASCall [\<lparr>geom_handle = 1, geom_id = 1\<rparr>]])"
    "createTLAS RecordingBackend [?inst] ?log =
       (\<lparr>tlas_handle = 3, tlas_id = 0\<rparr>, ?log @ [CreateTLASCall [?inst]])"
    by (simp_all add: RecordingBackend_def)
  have f: "isSupported ?failing () = (True, ())"
    "createGeometry ?failing ?desc () = (\<lparr>geom_handle = nullptr, geom_id = 0\<rparr>, ())"
    by (simp_all add: StubRTBackend_def)
  have inv: "no_null_handles one_blas_state"
    unfolding one_blas_state_def
    using registered_iff_backend_succeeded
            [where B = RecordingBackend and e = sample_engine and created = "[]"]
    by blast
  have ok: "map_of
     (g_geometries
        (snd (js_createGeometry RecordingBackend sample_engine [triangle_options]
                (initialized []))))
     1 = Some \<lparr>geom_handle = 1, geom_id = 1\<rparr>"
    using registered_iff_backend_succeeded
            [where B = RecordingBackend and e = sample_engine and s = "initialized []"
               and args = "[triangle_options]" and b = "[]" and ?b1.0 = "[]" and desc = ?desc
               and gh = "\<lparr>geom_handle = 1, geom_id = 0\<rparr>"
               and ?b2.0 = "[CreateGeometryCall ?desc]"]
      m b q
    by (simp add: Let_def)
  have okb: "map_of
     (g_blases
        (snd (js_createBLAS RecordingBackend sample_engine [JSArray [geometry_object 1]]
                one_blas_state)))
     2 = Some \<lparr>blas_handle = 3, blas_id = 2\<rparr>"
    using registered_iff_backend_succeeded
            [where B = RecordingBackend and e = sample_engine and s = one_blas_state
               and args = "[JSArray [geometry_object 1]]" and b = ?log and ?b1.0 = ?log
               and handles = "[\<lparr>geom_handle = 1, geom_id = 1\<rparr>]"
               and bh = "\<lparr>blas_handle = 3, blas_id = 0\<rparr>"
               and ?b3.0 = "?log @ [CreateBLASCall [\<lparr>geom_handle = 1, geom_id = 1\<rparr>]]"]
      mb o q
    by (simp add: Let_def)
  have okt: "map_of
     (g_tlases
        (snd (js_createTLAS RecordingBackend sample_engine [JSArray [masked_instance]]
                one_blas_state)))
     1 = Some \<lparr>tlas_handle = 3, tlas_id = 1\<rparr>"
    using registered_iff_backend_succeeded
            [where B = RecordingBackend and e = sample_engine and s = one_blas_state
               and args = "[JSArray [masked_instance]]" and b = ?log and ?b1.0 = ?log
               and instances = "[?inst]"
               and th = "\<lparr>tlas_handle = 3, tlas_id = 0\<rparr>"
               and ?b4.0 = "?log @ [CreateTLASCall [?inst]]"]
      mt o q
    by (simp add: Let_def)
  have ko: "g_geometries
     (snd (js_createGeometry ?failing sample_engine [triangle_options] (initialized ()))) = []"
    using registered_iff_backend_succeeded
            [where B = ?failing and e = sample_engine and s = "initialized ()"
               and args = "[triangle_options]" and b = "()" and ?b1.0 = "()" and desc = ?desc
               and gh = "\<lparr>geom_handle = nullptr, geom_id = 0\<rparr>" and ?b2.0 = "()"]
      m b f
    by (simp add: Let_def)
  have unmarshaled:
    "g_geometries (snd (js_createGeometry RecordingBackend sample_engine [] one_blas_state)) =
       g_geometries one_blas_state"
    "g_blases (snd (js_createBLAS RecordingBackend sample_engine [] one_blas_state)) =
       g_blases one_blas_state"
    "g_tlases (snd (js_createTLAS RecordingBackend sample_engine [] one_blas_state)) =
       g_tlases one_blas_state"
    using registered_iff_backend_succeeded
            [where B = RecordingBackend and e = sample_engine and s = one_blas_state
               and args = "[]"]
      none
    by blast+
  from inv ok okb okt ko f(2) none unmarshaled show ?thesis by simp
qed

subsection \<open>The default transform\<close>



subsection \<open>Buffer extraction in createGeometry\<close>

text \<open>
  Claim C7 (amended).  If the extraction of the \<^verbatim>\<open>vertices\<close> buffer gives a null data
  pointer or a zero byte length, \<^verbatim>\<open>createGeometry\<close> fails: it returns \<^verbatim>\<open>null\<close> and calls
  no backend creation.  An \<^verbatim>\<open>indices\<close> buffer whose extraction fails in this way does not
  fail the call: with a supporting backend, an options object and vertices of at least
  one float, the binding calls the backend's \<^verbatim>\<open>createGeometry\<close> with a descriptor
  without indices (\<^verbatim>\<open>indices = nullptr\<close>, \<^verbatim>\<open>indexCount = 0\<close>), and it returns \<^verbatim>\<open>null\<close>
  only if the backend returns a null native pointer; otherwise it registers the handle and
  returns its wrapper object.
\<close>

theorem createGeometry_buffer_extraction:
  "(fst (getArrayBufferData e (getProperty e options ''vertices'')) = None \<or>
    snd (getArrayBufferData e (getProperty e options ''vertices'')) = 0 \<longrightarrow>
      js_createGeometry B e (options # rest) s = (newNull e, after_support_query B s)) \<and>
   (g_rtBackend s = Some b \<and> isSupported B b = (True, b1) \<and> isObject e options \<and>
    getArrayBufferData e (getProperty e options ''vertices'') = (Some verts, byteSize) \<and>
    4 \<le> byteSize \<and>
    (fst (getArrayBufferData e (getProperty e options ''indices'')) = None \<or>
     snd (getArrayBufferData e (getProperty e options ''indices'')) = 0) \<longrightarrow>
      js_createGeometry B e (options # rest) s =
        (case createGeometry B
                \<lparr> vertices = Some verts,
                  vertexCount = byteSize div 4 div 3,
                  vertexStride =
                    (if isUndefined e (getProperty e options ''vertexStride'') then 12
                     else double_to_size e (toNumber e (getProperty e options ''vertexStride''))),
                  vertexOffset =
                    (if isUndefined e (getProperty e options ''vertexOffset'') then 0
                     else double_to_size e (toNumber e (getProperty e options ''vertexOffset''))),
                  indices = None,
                  indexCount = 0 \<rparr> b1 of
           (handle, b2) \<Rightarrow>
             if geom_handle handle = nullptr
             then (newNull e, s\<lparr>g_rtBackend := Some b2\<rparr>)
             else (createGeometryJS e (g_nextGeometryId s),
                   s\<lparr> g_rtBackend := Some b2,
                      g_nextGeometryId := g_nextGeometryId s + 1,
                      g_geometries :=
                        AList.update (g_nextGeometryId s)
                          (handle\<lparr>geom_id := g_nextGeometryId s\<rparr>) (g_geometries s) \<rparr>)))"
  using marshalGeometryDesc_no_vertices [of e options rest]
    createGeometry_not_marshaled [of e "options # rest" B s]
    createGeometry_without_indices [of s b B b1 e options verts byteSize rest]
  by blast

theorem createGeometry_buffer_extraction_witness:
  "snd (getArrayBufferData sample_engine
          (getProperty sample_engine (JSObject [(''vertices'', JSTypedArray [])]) ''vertices'')) = 0 \<and>
   js_createGeometry RecordingBackend sample_engine [JSObject [(''vertices'', JSTypedArray [])]]
       (initialized []) = (JSNull, initialized []) \<and>
   getProperty sample_engine empty_indices_options ''indices'' = JSTypedArray [] \<and>
   snd (getArrayBufferData sample_engine
          (getProperty sample_engine empty_indices_options ''indices'')) = 0 \<and>
   fst (js_createGeometry RecordingBackend sample_engine [empty_indices_options] (initialized []))
     = geometry_object 1 \<and>
   g_rtBackend
     (snd (js_createGeometry RecordingBackend sample_engine [empty_indices_options]
             (initialized []))) =
     Some [CreateGeometryCall
             \<lparr> vertices = Some [0, 0, 0, f32_one, 0, 0, 0, f32_one, 0],
               vertexCount = 3, vertexStride = 12, vertexOffset = 0,
               indices = None, indexCount = 0 \<rparr>] \<and>
   g_geometries
     (snd (js_createGeometry RecordingBackend sample_engine [empty_indices_options]
             (initialized []))) = [(1, \<lparr>geom_handle = 1, geom_id = 1\<rparr>)]"
proof -
  have v: "snd (getArrayBufferData sample_engine
          (getProperty sample_engine (JSObject [(''vertices'', JSTypedArray [])]) ''vertices'')) = 0"
    by (simp add: sample_engine_def)
  have failed: "js_createGeometry RecordingBackend sample_engine
                  [JSObject [(''vertices'', JSTypedArray [])]] (initialized [])
                = (JSNull, initialized [])"
    using createGeometry_buffer_extraction
            [of sample_engine "JSObject [(''vertices'', JSTypedArray [])]" RecordingBackend "[]"
                "initialized []"] v
    by (simp add: initialized_recording_facts empty_indices_facts)
  have created: "js_createGeometry RecordingBackend sample_engine [empty_indices_options]
                   (initialized []) =
          (geometry_object 1,
           (initialized [])
             \<lparr> g_rtBackend :=
                 Some [CreateGeometryCall
                         \<lparr> vertices = Some [0, 0, 0, f32_one, 0, 0, 0, f32_one, 0],
                           vertexCount = 3, vertexStride = 12, vertexOffset = 0,
                           indices = None, indexCount = 0 \<rparr>],
               g_nextGeometryId := 2,
               g_geometries := [(1, \<lparr>geom_handle = 1, geom_id = 1\<rparr>)] \<rparr>)"
    using createGeometry_buffer_extraction
            [of sample_engine empty_indices_options RecordingBackend "[]" "initialized []"
                "[]" "[]" "[0, 0, 0, f32_one, 0, 0, 0, f32_one, 0]" 36]
    by (simp add: initialized_recording_facts empty_indices_facts)
  from v failed created show ?thesis
    by (simp add: empty_indices_facts)
qed

text \<open>
  The claim as written fails for the index buffer: with an empty \<^verbatim>\<open>indices\<close> buffer (zero
  byte length) and valid vertices the call succeeds and registers geometry 1.
\<close>

theorem createGeometry_empty_indices_counterexample:
  "\<not> isUndefined sample_engine (getProperty sample_engine empty_indices_options ''indices'') \<and>
   snd (getArrayBufferData sample_engine
          (getProperty sample_engine empty_indices_options ''indices'')) = 0 \<and>
   extractUint32Array sample_engine
     (getProperty sample_engine empty_indices_options ''indices'') = None \<and>
   fst (js_createGeometry RecordingBackend sample_engine [empty_indices_options] (initialized []))
     = geometry_object 1 \<and>
   fst (js_createGeometry RecordingBackend sample_engine [empty_indices_options] (initialized []))
     \<noteq> newNull sample_engine \<and>
   g_geometries
     (snd (js_createGeometry RecordingBackend sample_engine [empty_indices_options]
             (initialized []))) = [(1, \<lparr>geom_handle = 1, geom_id = 1\<rparr>)]"
  by (simp add: js_createGeometry_def marshalGeometryDesc_def extractFloat32Array_def
        extractUint32Array_def createGeometryJS_def sample_defs empty_indices_options_def)

subsection \<open>Destroying twice\<close>

text \<open>
  Claim C8.  Each of \<^verbatim>\<open>destroyGeometry\<close>, \<^verbatim>\<open>destroyBLAS\<close> and \<^verbatim>\<open>destroyTLAS\<close> is
  idempotent.  Every call returns \<^verbatim>\<open>undefined\<close>, there being no error result.  A second
  call with the same arguments, on the globals the first call left, changes nothing (the
  backend object included, so the backend is not called again); and a call with a handle
  object whose id is in no entry of the table changes nothing either.
\<close>

theorem destroy_idempotent:
  "fst (js_destroyGeometry B e args s) = newUndefined e \<and>
   fst (js_destroyBLAS B e args s) = newUndefined e \<and>
   fst (js_destroyTLAS B e args s) = newUndefined e \<and>
   js_destroyGeometry B e args (snd (js_destroyGeometry B e args s)) =
     (newUndefined e, snd (js_destroyGeometry B e args s)) \<and>
   js_destroyBLAS B e args (snd (js_destroyBLAS B e args s)) =
     (newUndefined e, snd (js_destroyBLAS B e args s)) \<and>
   js_destroyTLAS B e args (snd (js_destroyTLAS B e args s)) =
     (newUndefined e, snd (js_destroyTLAS B e args s)) \<and>
   (map_of (g_geometries s) (getGeometryId e obj) = None \<longrightarrow>
      js_destroyGeometry B e (obj # rest) s = (newUndefined e, s)) \<and>
   (map_of (g_blases s) (getBLASId e obj) = None \<longrightarrow>
      js_destroyBLAS B e (obj # rest) s = (newUndefined e, s)) \<and>
   (map_of (g_tlases s) (getTLASId e obj) = None \<longrightarrow>
      js_destroyTLAS B e (obj # rest) s = (newUndefined e, s))"
  by (simp add: destroy_returns_undefined destroyGeometry_twice destroyBLAS_twice
        destroyTLAS_twice destroyGeometry_unknown destroyBLAS_unknown destroyTLAS_unknown)

theorem destroy_idempotent_witness:
  "map_of (g_geometries one_blas_state) (getGeometryId sample_engine (geometry_object 7)) = None \<and>
   map_of (g_blases one_blas_state) (getBLASId sample_engine (geometry_object 7)) = None \<and>
   map_of (g_tlases one_blas_state) (getTLASId sample_engine (geometry_object 7)) = None \<and>
   js_destroyGeometry RecordingBackend sample_engine [geometry_object 7] one_blas_state =
     (JSUndefined, one_blas_state) \<and>
   js_destroyBLAS RecordingBackend sample_engine [geometry_object 7] one_blas_state =
     (JSUndefined, one_blas_state) \<and>
   js_destroyTLAS RecordingBackend sample_engine [geometry_object 7] one_blas_state =
     (JSUndefined, one_blas_state) \<and>
   snd (js_destroyBLAS RecordingBackend sample_engine [blas_object 1] one_blas_state)
     \<noteq> one_blas_state \<and>
   js_destroyBLAS RecordingBackend sample_engine [blas_object 1]
       (snd (js_destroyBLAS RecordingBackend sample_engine [blas_object 1] one_blas_state)) =
     (JSUndefined,
      snd (js_destroyBLAS RecordingBackend sample_engine [blas_object 1] one_blas_state))"
proof -
  have unknown:
    "map_of (g_geometries one_blas_state) (getGeometryId sample_engine (geometry_object 7)) = None"
    "map_of (g_blases one_blas_state) (getBLASId sample_engine (geometry_object 7)) = None"
    "map_of (g_tlases one_blas_state) (getTLASId sample_engine (geometry_object 7)) = None"
    by (simp_all add: one_blas_state_eq getGeometryId_def getBLASId_def getTLASId_def
          sample_engine_def geometry_object_def)
  have changed:
    "g_blases (snd (js_destroyBLAS RecordingBackend sample_engine [blas_object 1] one_blas_state))
       \<noteq> g_blases one_blas_state"
    by (simp add: one_blas_state_eq js_destroyBLAS_def getBLASId_def sample_engine_def
          blas_object_def)
  from changed have differs:
    "snd (js_destroyBLAS RecordingBackend sample_engine [blas_object 1] one_blas_state)
       \<noteq> one_blas_state"
    by auto
  have undef: "newUndefined sample_engine = JSUndefined"
    by (simp add: sample_engine_def)
  from destroy_idempotent
         [of RecordingBackend sample_engine "[blas_object 1]" one_blas_state
             "geometry_object 7" "[]"]
       unknown differs undef
  show ?thesis by simp
qed

subsection \<open>Destroying changes one table\<close>

text \<open>
  Claim C9.  For all globals and all arguments, \<^verbatim>\<open>destroyGeometry\<close> leaves the BLAS table,
  the TLAS table and the three id allocators as they were; \<^verbatim>\<open>destroyBLAS\<close> and
  \<^verbatim>\<open>destroyTLAS\<close> likewise change at most their own table.
\<close>

theorem destroy_touches_own_table_only:
  "(let s' = snd (js_destroyGeometry B e args s)
    in g_blases s' = g_blases s \<and> g_tlases s' = g_tlases s \<and>
       g_nextGeometryId s' = g_nextGeometryId s \<and> g_nextBLASId s' = g_nextBLASId s \<and>
       g_nextTLASId s' = g_nextTLASId s) \<and>
   (let s' = snd (js_destroyBLAS B e args s)
    in g_geometries s' = g_geometries s \<and> g_tlases s' = g_tlases s \<and>
       g_nextGeometryId s' = g_nextGeometryId s \<and> g_nextBLASId s' = g_nextBLASId s \<and>
       g_nextTLASId s' = g_nextTLASId s) \<and>
   (let s' = snd (js_destroyTLAS B e args s)
    in g_geometries s' = g_geometries s \<and> g_blases s' = g_blases s \<and>
       g_nextGeometryId s' = g_nextGeometryId s \<and> g_nextBLASId s' = g_nextBLASId s \<and>
       g_nextTLASId s' = g_nextTLASId s)"
  by (simp add: Let_def destroyGeometry_frame destroyBLAS_frame destroyTLAS_frame)

theorem destroy_touches_own_table_only_witness:
  "g_geometries (snd (js_destroyGeometry RecordingBackend sample_engine [geometry_object 1]
       one_blas_state)) = [] \<and>
   g_blases (snd (js_destroyGeometry RecordingBackend sample_engine [geometry_object 1]
       one_blas_state)) = [(1, \<lparr>blas_handle = 2, blas_id = 1\<rparr>)] \<and>
   g_nextGeometryId (snd (js_destroyGeometry RecordingBackend sample_engine [geometry_object 1]
       one_blas_state)) = 2"
  using destroy_touches_own_table_only
          [of RecordingBackend sample_engine "[geometry_object 1]" one_blas_state]
  by (simp add: Let_def one_blas_state_eq js_destroyGeometry_def getGeometryId_def
        sample_engine_def geometry_object_def)

subsection \<open>Handle objects without an id\<close>

text \<open>
  Claim C10 (amended).  As long as fewer than \<open>2\<^sup>3\<^sup>2\<close> ids of each kind have been allocated
  since initialisation, id 0 is in no table.  A handle object whose \<^verbatim>\<open>_id\<close> property is
  undefined resolves to id 0, so in such globals every destroy binding called with it
  changes nothing, and \<^verbatim>\<open>createBLAS\<close> and \<^verbatim>\<open>createTLAS\<close> return \<^verbatim>\<open>null\<close> without calling
  a backend creation when an element refers to it.  (The allocators are \<^verbatim>\<open>uint32_t\<close>:
  the \<open>2\<^sup>3\<^sup>2\<close>-th allocation of a kind is id 0.)
\<close>

theorem handle_without_id_is_inert:
  assumes "length (allocated_ids Geometry B e cs (initialized created)) < 2 ^ 32"
    and "length (allocated_ids BLAS B e cs (initialized created)) < 2 ^ 32"
    and "length (allocated_ids TLAS B e cs (initialized created)) < 2 ^ 32"
    and "s = run_calls B e cs (initialized created)"
    and "isUndefined e (getProperty e obj ''_id'')"
  shows "getGeometryId e obj = 0 \<and> getBLASId e obj = 0 \<and> getTLASId e obj = 0 \<and>
         map_of (g_geometries s) 0 = None \<and>
         map_of (g_blases s) 0 = None \<and>
         map_of (g_tlases s) 0 = None \<and>
         js_destroyGeometry B e (obj # rest) s = (newUndefined e, s) \<and>
         js_destroyBLAS B e (obj # rest) s = (newUndefined e, s) \<and>
         js_destroyTLAS B e (obj # rest) s = (newUndefined e, s) \<and>
         (i < double_to_size e (toNumber e (getProperty e arr ''length'')) \<and>
          getPropertyIndex e arr (of_nat i) = obj \<longrightarrow>
            js_createBLAS B e (arr # rest) s = (newNull e, after_support_query B s)) \<and>
         (i < double_to_size e (toNumber e (getProperty e arr ''length'')) \<and>
          getProperty e (getPropertyIndex e arr (of_nat i)) ''blas'' = obj \<longrightarrow>
            js_createTLAS B e (arr # rest) s = (newNull e, after_support_query B s))"
proof -
  note ids = undefined_id_is_zero [OF assms(5)]
  have g: "map_of (g_geometries s) 0 = None"
    using zero_not_registered [OF assms(1)] assms(4) by (intro not_key_lookup) simp
  have b: "map_of (g_blases s) 0 = None"
    using zero_not_registered [OF assms(2)] assms(4) by (intro not_key_lookup) simp
  have t: "map_of (g_tlases s) 0 = None"
    using zero_not_registered [OF assms(3)] assms(4) by (intro not_key_lookup) simp
  have dg: "js_destroyGeometry B e (obj # rest) s = (newUndefined e, s)"
    by (rule destroyGeometry_unknown) (simp add: ids g)
  have db: "js_destroyBLAS B e (obj # rest) s = (newUndefined e, s)"
    by (rule destroyBLAS_unknown) (simp add: ids b)
  have dt: "js_destroyTLAS B e (obj # rest) s = (newUndefined e, s)"
    by (rule destroyTLAS_unknown) (simp add: ids t)
  have cb: "js_createBLAS B e (arr # rest) s = (newNull e, after_support_query B s)"
    if "i < double_to_size e (toNumber e (getProperty e arr ''length''))"
      and "getPropertyIndex e arr (of_nat i) = obj"
    using that by (intro createBLAS_not_marshaled marshalBLASGeometries_unresolved [of i])
                  (simp_all add: ids g)
  have ct: "js_createTLAS B e (arr # rest) s = (newNull e, after_support_query B s)"
    if "i < double_to_size e (toNumber e (getProperty e arr ''length''))"
      and "getProperty e (getPropertyIndex e arr (of_nat i)) ''blas'' = obj"
    using that by (intro createTLAS_not_marshaled marshalTLASInstances_unresolved [of i])
                  (simp_all add: ids b)
  from ids g b t dg db dt cb ct show ?thesis
    by blast
qed

theorem handle_without_id_is_inert_witness:
  "isUndefined sample_engine (getProperty sample_engine (JSObject []) ''_id'') \<and>
   one_blas_state =
     run_calls RecordingBackend sample_engine
       [CreateGeometry [triangle_options], CreateBLAS [JSArray [geometry_object 1]]]
       (initialized []) \<and>
   getBLASId sample_engine (JSObject []) = 0 \<and>
   map_of (g_blases one_blas_state) 0 = None \<and>
   js_destroyBLAS RecordingBackend sample_engine [JSObject []] one_blas_state =
     (JSUndefined, one_blas_state) \<and>
   js_createBLAS RecordingBackend sample_engine [JSArray [JSObject []]] one_blas_state =
     (JSNull, one_blas_state) \<and>
   js_createTLAS RecordingBackend sample_engine
       [JSArray [JSObject [(''blas'', JSObject [])]]] one_blas_state =
     (JSNull, one_blas_state)"
proof -
  let ?cs = "[CreateGeometry [triangle_options], CreateBLAS [JSArray [geometry_object 1]]]"
  have und: "isUndefined sample_engine (getProperty sample_engine (JSObject []) ''_id'')"
    by (simp add: sample_engine_def)
  have g: "length (allocated_ids Geometry RecordingBackend sample_engine ?cs (initialized []))
             < 2 ^ 32"
    and b: "length (allocated_ids BLAS RecordingBackend sample_engine ?cs (initialized []))
             < 2 ^ 32"
    and t: "length (allocated_ids TLAS RecordingBackend sample_engine ?cs (initialized []))
             < 2 ^ 32"
    by (simp_all add: Let_def)
  have s: "one_blas_state = run_calls RecordingBackend sample_engine ?cs (initialized [])"
    by (simp only: one_blas_state_def)
  have same: "after_support_query RecordingBackend one_blas_state = one_blas_state"
    by (simp add: after_support_query_def one_blas_state_eq RecordingBackend_def)
  have vals: "newUndefined sample_engine = JSUndefined" "newNull sample_engine = JSNull"
    by (simp_all add: sample_engine_def)
  have len: "(0::nat) < double_to_size sample_engine
               (toNumber sample_engine (getProperty sample_engine (JSArray [JSObject []]) ''length''))"
    "(0::nat) < double_to_size sample_engine
               (toNumber sample_engine
                  (getProperty sample_engine (JSArray [JSObject [(''blas'', JSObject [])]])
                     ''length''))"
    by (simp_all add: sample_engine_def)
  have elem: "getPropertyIndex sample_engine (JSArray [JSObject []]) (of_nat 0) = JSObject []"
    "getProperty sample_engine
       (getPropertyIndex sample_engine (JSArray [JSObject [(''blas'', JSObject [])]]) (of_nat 0))
       ''blas'' = JSObject []"
    by (simp_all add: sample_engine_def)
  from handle_without_id_is_inert
         [OF g b t s und, of "[]" 0 "JSArray [JSObject []]"]
       handle_without_id_is_inert
         [OF g b t s und, of "[]" 0 "JSArray [JSObject [(''blas'', JSObject [])]]"]
       und s same vals len elem
  show ?thesis by simp
qed

text \<open>
  Without the bound the claim fails: the \<open>2\<^sup>3\<^sup>2\<close>-th geometry is registered under id 0,
  and destroying a handle object that has no \<^verbatim>\<open>_id\<close> then removes that entry.
\<close>

theorem handle_without_id_after_wrap_counterexample:
  "isUndefined sample_engine (getProperty sample_engine (JSObject []) ''_id'') \<and>
   map_of
     (g_geometries
        (run_calls RecordingBackend sample_engine
           (replicate (2 ^ 32) (CreateGeometry [triangle_options])) (initialized [])))
     0 \<noteq> None \<and>
   snd (js_destroyGeometry RecordingBackend sample_engine [JSObject []]
          (run_calls RecordingBackend sample_engine
             (replicate (2 ^ 32) (CreateGeometry [triangle_options])) (initialized [])))
     \<noteq> run_calls RecordingBackend sample_engine
         (replicate (2 ^ 32) (CreateGeometry [triangle_options])) (initialized [])"
proof -
  let ?c = "CreateGeometry [triangle_options] :: jsval rt_call"
  let ?sP = "run_calls RecordingBackend sample_engine (replicate (2 ^ 32 - 1) ?c) (initialized [])"
  let ?sW = "run_calls RecordingBackend sample_engine (replicate (2 ^ 32) ?c) (initialized [])"
  have b0: "g_rtBackend (initialized [] :: backend_call list rt_globals) = Some []"
    by (simp add: initialized_def initializeRTBindings_def)
  from repeated_creation [OF b0, of "2 ^ 32 - 1"]
  obtain calls where bP: "g_rtBackend ?sP = Some calls"
    and len: "length (allocated_ids Geometry RecordingBackend sample_engine
                        (replicate (2 ^ 32 - 1) ?c) (initialized [])) = 2 ^ 32 - 1"
    by auto
  have "next_id Geometry ?sP = 1 + of_nat (2 ^ 32 - 1)"
    by (simp only: run_calls_next_id initialized_next_id len)
  then have nP: "g_nextGeometryId ?sP = 0"
    by simp
  have "replicate (2 ^ 32) ?c = replicate (2 ^ 32 - 1) ?c @ [?c]"
    by (simp only: replicate_append_same) (simp add: replicate_Suc [symmetric] del: replicate_Suc)
  then have "?sW = snd (js_createGeometry RecordingBackend sample_engine [triangle_options] ?sP)"
    by (simp only: run_calls_append run_calls.simps call_binding.simps)
  then have gW: "g_geometries ?sW =
      AList.update 0 \<lparr>geom_handle = Suc (length calls), geom_id = 0\<rparr> (g_geometries ?sP)"
    by (simp only: sample_createGeometry [OF bP] nP) simp
  then have reg: "map_of (g_geometries ?sW) 0 = Some \<lparr>geom_handle = Suc (length calls), geom_id = 0\<rparr>"
    by (simp only: update_conv') simp
  have und: "isUndefined sample_engine (getProperty sample_engine (JSObject []) ''_id'')"
    by (simp add: sample_engine_def)
  then have zero: "getGeometryId sample_engine (JSObject []) = 0"
    by (rule undefined_id_is_zero)
  have "map_of (g_geometries (snd (js_destroyGeometry RecordingBackend sample_engine
                                     [JSObject []] ?sW))) 0 = None"
    using reg zero by (simp add: js_destroyGeometry_def delete_conv')
  with reg have "snd (js_destroyGeometry RecordingBackend sample_engine [JSObject []] ?sW) \<noteq> ?sW"
    by auto
  with und reg show ?thesis
    by simp
qed

end
